theory Spec2Isabelle
  imports Complex_Main "HOL-Library.Multiset"
begin

section \<open>The orchestration store\<close>

text \<open>
  The exporter reads four tables of the orchestrator's database through the ORM classes
  \<^verbatim>\<open>DagModel\<close>, \<^verbatim>\<open>DagRun\<close>, \<^verbatim>\<open>TaskInstance\<close> and \<^verbatim>\<open>TaskFail\<close>. Only the columns
  that \<^verbatim>\<open>prometheus_exporter.py\<close> mentions are kept. A timestamp is the number of
  microseconds since the epoch, the resolution of Python's \<^verbatim>\<open>datetime\<close>. Key columns
  (\<^verbatim>\<open>dag_id\<close>, \<^verbatim>\<open>task_id\<close>, \<^verbatim>\<open>execution_date\<close>) always hold a value, and so do
  \<^verbatim>\<open>owners\<close> and \<^verbatim>\<open>queue\<close>; \<^verbatim>\<open>state\<close> and the start, end and queueing timestamps
  may be NULL (\<open>None\<close>). A table is the list of its rows.
\<close>

type_synonym datetime = int

record DagModel =
  dm_dag_id :: string
  dm_owners :: string

record DagRun =
  dr_dag_id :: string
  dr_state :: "string option"
  dr_execution_date :: datetime
  dr_start_date :: "datetime option"
  dr_end_date :: "datetime option"

record TaskInstance =
  ti_dag_id :: string
  ti_task_id :: string
  ti_state :: "string option"
  ti_queue :: string
  ti_execution_date :: datetime
  ti_start_date :: "datetime option"
  ti_end_date :: "datetime option"
  ti_queued_dttm :: "datetime option"

record TaskFail =
  tf_dag_id :: string
  tf_task_id :: string

text \<open>The eight statements the module sends to the store.\<close>

datatype query =
  DagStateInfo | DagDurationInfo | TaskStateInfo | TaskFailureCounts
  | TaskDurationInfo | DagSchedulerDelay | TaskSchedulerDelay | NumQueuedTasks

text \<open>
  The store: the four tables, and \<open>unavailable\<close>, which tells for each statement whether
  executing it fails in the database (a lost connection, a schema mismatch).
\<close>

record store =
  dag :: "DagModel list"
  dag_run :: "DagRun list"
  task_instance :: "TaskInstance list"
  task_fail :: "TaskFail list"
  unavailable :: "query \<Rightarrow> bool"

definition CANARY_DAG :: string where
  "CANARY_DAG = ''canary_dag''"

text \<open>\<^verbatim>\<open>State.SUCCESS\<close> and \<^verbatim>\<open>State.QUEUED\<close> of \<^verbatim>\<open>airflow.utils.state\<close>.\<close>

definition SUCCESS :: string where
  "SUCCESS = ''success''"

definition QUEUED :: string where
  "QUEUED = ''queued''"

section \<open>SQL aggregates and comparison\<close>

text \<open>
  \<^verbatim>\<open>func.max\<close> and \<^verbatim>\<open>func.min\<close> skip NULLs and are NULL when nothing is left; \<open>=\<close> on
  a NULL operand is not true.
\<close>

definition non_null :: "'a option list \<Rightarrow> 'a list" where
  "non_null xs = map the (filter (\<lambda>x. x \<noteq> None) xs)"

definition func_max :: "int option list \<Rightarrow> int option" where
  "func_max xs = (case non_null xs of [] \<Rightarrow> None | y # ys \<Rightarrow> Some (fold max ys y))"

definition func_min :: "int option list \<Rightarrow> int option" where
  "func_min xs = (case non_null xs of [] \<Rightarrow> None | y # ys \<Rightarrow> Some (fold min ys y))"

definition sql_eq :: "'a option \<Rightarrow> 'a option \<Rightarrow> bool" where
  "sql_eq a b = (a \<noteq> None \<and> a = b)"

text \<open>
  \<^verbatim>\<open>GROUP BY\<close>: the distinct keys of the rows, NULLs forming one group. SQL leaves the
  order of the groups, and of joined rows, to the database. The order of a table's list
  stands for the order in which the database happens to go through the table, and a
  statement returns its rows in the order that follows from it; \<open>same_contents\<close> below
  relates the stores that differ in this order alone.
\<close>

definition group_keys :: "('r \<Rightarrow> 'k) \<Rightarrow> 'r list \<Rightarrow> 'k list" where
  "group_keys key rows = remdups (map key rows)"

section \<open>The statements of the query layer\<close>

subsection \<open>DAG related\<close>

type_synonym dag_state_row = "string \<times> string option \<times> int \<times> string"
  \<comment> \<open>\<open>dag_id, state, count, owners\<close>\<close>

text \<open>\<^verbatim>\<open>func.count(DagRun.state)\<close> counts the rows of the group whose state is not NULL.\<close>

definition dag_status_query :: "store \<Rightarrow> (string \<times> string option \<times> int) list" where
  "dag_status_query st =
     map (\<lambda>(d, s). (d, s,
            int (length (filter (\<lambda>r. dr_dag_id r = d \<and> dr_state r = s \<and> dr_state r \<noteq> None)
                           (dag_run st)))))
         (group_keys (\<lambda>r. (dr_dag_id r, dr_state r)) (dag_run st))"

definition dag_state_rows :: "store \<Rightarrow> dag_state_row list" where
  "dag_state_rows st =
     concat (map (\<lambda>(d, s, c).
                    map (\<lambda>m. (d, s, c, dm_owners m))
                        (filter (\<lambda>m. dm_dag_id m = d) (dag st)))
                 (dag_status_query st))"

text \<open>
  The sub-query shared by both duration statements: per workflow, the greatest
  execution date among its runs that succeeded and have an end date.
\<close>

definition completed :: "DagRun \<Rightarrow> bool" where
  "completed r = (dr_state r = Some SUCCESS \<and> dr_end_date r \<noteq> None)"

definition max_execution_dt_query :: "store \<Rightarrow> (string \<times> datetime option) list" where
  "max_execution_dt_query st =
     map (\<lambda>d. (d, func_max (map (\<lambda>r. Some (dr_execution_date r))
                               (filter (\<lambda>r. dr_dag_id r = d) (filter completed (dag_run st))))))
         (group_keys dr_dag_id (filter completed (dag_run st)))"

text \<open>
  Joined with the task instances of that execution date and grouped again: the least
  start date among them. A workflow with no task instance at that date has no row.
\<close>

definition dag_start_dt_query :: "store \<Rightarrow> (string \<times> datetime option \<times> datetime option) list" where
  "dag_start_dt_query st =
     concat (map (\<lambda>(d, mx).
                    (case filter (\<lambda>t. ti_dag_id t = d \<and> sql_eq (Some (ti_execution_date t)) mx)
                                 (task_instance st) of
                       [] \<Rightarrow> []
                     | t # ts \<Rightarrow> [(d, mx, func_min (map ti_start_date (t # ts)))]))
                 (max_execution_dt_query st))"

type_synonym dag_duration_row = "string \<times> datetime option \<times> datetime option"
  \<comment> \<open>\<open>dag_id, start_date, end_date\<close>\<close>

definition dag_duration_rows :: "store \<Rightarrow> dag_duration_row list" where
  "dag_duration_rows st =
     concat (map (\<lambda>(d, ex, start).
                    map (\<lambda>r. (d, start, dr_end_date r))
                        (filter (\<lambda>r. dr_dag_id r = d \<and> sql_eq (Some (dr_execution_date r)) ex)
                                (dag_run st)))
                 (dag_start_dt_query st))"

subsection \<open>Task related\<close>

type_synonym task_state_row = "string \<times> string \<times> string option \<times> int \<times> string"
  \<comment> \<open>\<open>dag_id, task_id, state, value, owners\<close>\<close>

definition task_status_query :: "store \<Rightarrow> (string \<times> string \<times> string option \<times> int) list" where
  "task_status_query st =
     map (\<lambda>(d, t, s). (d, t, s,
            int (length (filter (\<lambda>i. ti_dag_id i = d \<and> ti_task_id i = t \<and> ti_state i = s)
                           (task_instance st)))))
         (group_keys (\<lambda>i. (ti_dag_id i, ti_task_id i, ti_state i)) (task_instance st))"

definition task_state_rows :: "store \<Rightarrow> task_state_row list" where
  "task_state_rows st =
     concat (map (\<lambda>(d, t, s, v).
                    map (\<lambda>m. (d, t, s, v, dm_owners m))
                        (filter (\<lambda>m. dm_dag_id m = d) (dag st)))
                 (task_status_query st))"

type_synonym task_failure_row = "string \<times> string \<times> int"
  \<comment> \<open>\<open>dag_id, task_id, count\<close>\<close>

definition task_failure_rows :: "store \<Rightarrow> task_failure_row list" where
  "task_failure_rows st =
     map (\<lambda>(d, t). (d, t,
            int (length (filter (\<lambda>f. tf_dag_id f = d \<and> tf_task_id f = t) (task_fail st)))))
         (group_keys (\<lambda>f. (tf_dag_id f, tf_task_id f)) (task_fail st))"

definition finished :: "TaskInstance \<Rightarrow> bool" where
  "finished i = (ti_state i = Some SUCCESS \<and> ti_start_date i \<noteq> None \<and> ti_end_date i \<noteq> None)"

definition task_duration_query :: "store \<Rightarrow> (string \<times> string \<times> datetime option) list" where
  "task_duration_query st =
     map (\<lambda>(d, t). (d, t,
            func_max (map (\<lambda>i. Some (ti_execution_date i))
                          (filter (\<lambda>i. ti_dag_id i = d \<and> ti_task_id i = t)
                                  (filter finished (task_instance st))))))
         (group_keys (\<lambda>i. (ti_dag_id i, ti_task_id i)) (filter finished (task_instance st)))"

definition task_latest_execution_dt :: "store \<Rightarrow> (string \<times> string \<times> datetime option) list" where
  "task_latest_execution_dt st =
     concat (map (\<lambda>(d, t, mx).
                    map (\<lambda>_. (d, t, mx))
                        (filter (\<lambda>(d', mx'). d = d' \<and> sql_eq mx mx') (max_execution_dt_query st)))
                 (task_duration_query st))"

type_synonym task_duration_row =
  "string \<times> string \<times> datetime option \<times> datetime option \<times> datetime option"
  \<comment> \<open>\<open>dag_id, task_id, start_date, end_date, execution_date\<close>\<close>

definition task_duration_rows :: "store \<Rightarrow> task_duration_row list" where
  "task_duration_rows st =
     concat (map (\<lambda>(d, t, ex).
                    map (\<lambda>i. (d, t, ti_start_date i, ti_end_date i, ex))
                        (filter (\<lambda>i. ti_dag_id i = d \<and> ti_task_id i = t
                                      \<and> sql_eq (Some (ti_execution_date i)) ex)
                                (task_instance st)))
                 (task_latest_execution_dt st))"

subsection \<open>Scheduler related\<close>

type_synonym dag_delay_row = "string \<times> datetime \<times> datetime option"
  \<comment> \<open>\<open>dag_id, execution_date, start_date\<close>\<close>

text \<open>
  \<^verbatim>\<open>ORDER BY execution_date DESC LIMIT 1\<close>: a stable sort on the negated date, then the
  first row.
\<close>

definition dag_scheduler_delay_rows :: "store \<Rightarrow> dag_delay_row list" where
  "dag_scheduler_delay_rows st =
     map (\<lambda>r. (dr_dag_id r, dr_execution_date r, dr_start_date r))
         (take 1 (sort_key (\<lambda>r. - dr_execution_date r)
                           (filter (\<lambda>r. dr_dag_id r = CANARY_DAG) (dag_run st))))"

definition canary_queued :: "TaskInstance \<Rightarrow> bool" where
  "canary_queued i = (ti_dag_id i = CANARY_DAG \<and> ti_queued_dttm i \<noteq> None)"

definition task_delay_query :: "store \<Rightarrow> (string \<times> datetime option) list" where
  "task_delay_query st =
     map (\<lambda>q. (q, func_max (map ti_start_date
                               (filter (\<lambda>i. ti_queue i = q)
                                       (filter canary_queued (task_instance st))))))
         (group_keys ti_queue (filter canary_queued (task_instance st)))"

type_synonym task_delay_row = "string \<times> datetime \<times> datetime option \<times> datetime option"
  \<comment> \<open>\<open>queue, execution_date, queued_dttm, start_date\<close>\<close>

text \<open>
  The join back to \<^verbatim>\<open>TaskInstance\<close> is on the queue and the start date alone: the
  statement puts no condition on the \<^verbatim>\<open>dag_id\<close> of the joined row.
\<close>

definition task_scheduler_delay_rows :: "store \<Rightarrow> task_delay_row list" where
  "task_scheduler_delay_rows st =
     concat (map (\<lambda>(q, max_start).
                    map (\<lambda>i. (q, ti_execution_date i, ti_queued_dttm i, max_start))
                        (filter (\<lambda>i. ti_queue i = q \<and> sql_eq (ti_start_date i) max_start)
                                (task_instance st)))
                 (task_delay_query st))"

definition queued_tasks :: "store \<Rightarrow> TaskInstance list" where
  "queued_tasks st = filter (\<lambda>i. ti_state i = Some QUEUED) (task_instance st)"

section \<open>Sessions\<close>

text \<open>
  What a scrape does to the outside is recorded as a trace: entering a
  \<^verbatim>\<open>session_scope\<close>, executing a statement, closing the session. The exporter's
  surroundings are the store and the trace so far.
\<close>

datatype event = Enter | Execute query | Close

record world =
  db :: store
  trace :: "event list"

datatype error = StoreError | TypeError | AttributeError

definition emit :: "event \<Rightarrow> world \<Rightarrow> world" where
  "emit e w = w\<lparr>trace := trace w @ [e]\<rparr>"

text \<open>
  \<^verbatim>\<open>try: yield session finally: session.close()\<close>: the body runs inside the scope, and
  the session is closed whether the body returned or raised.
\<close>

definition session_scope :: "(world \<Rightarrow> (error + 'a) \<times> world) \<Rightarrow> world \<Rightarrow> (error + 'a) \<times> world" where
  "session_scope body w = (case body (emit Enter w) of (r, w') \<Rightarrow> (r, emit Close w'))"

text \<open>
  A \<^verbatim>\<open>Query\<close> object is a statement that has not run yet. \<^verbatim>\<open>.all()\<close>, \<^verbatim>\<open>.count()\<close>
  and iterating over the object execute it, against the store as it is at that moment.
\<close>

datatype 'r pyquery = Query query "store \<Rightarrow> 'r list"

fun query_all :: "'r pyquery \<Rightarrow> world \<Rightarrow> (error + 'r list) \<times> world" where
  "query_all (Query q sel) w =
     (if unavailable (db w) q then Inl StoreError else Inr (sel (db w)), emit (Execute q) w)"

fun query_count :: "'r pyquery \<Rightarrow> world \<Rightarrow> (error + int) \<times> world" where
  "query_count (Query q sel) w =
     (if unavailable (db w) q then Inl StoreError else Inr (int (length (sel (db w)))),
      emit (Execute q) w)"

definition query_iter :: "'r pyquery \<Rightarrow> world \<Rightarrow> (error + 'r list) \<times> world" where
  "query_iter = query_all"

section \<open>The query layer\<close>

definition get_dag_state_info :: "world \<Rightarrow> (error + dag_state_row list) \<times> world" where
  "get_dag_state_info = session_scope (query_all (Query DagStateInfo dag_state_rows))"

definition get_dag_duration_info :: "world \<Rightarrow> (error + dag_duration_row list) \<times> world" where
  "get_dag_duration_info = session_scope (query_all (Query DagDurationInfo dag_duration_rows))"

definition get_task_state_info :: "world \<Rightarrow> (error + task_state_row list) \<times> world" where
  "get_task_state_info = session_scope (query_all (Query TaskStateInfo task_state_rows))"

text \<open>
  \<^verbatim>\<open>get_task_failure_counts\<close> has no \<^verbatim>\<open>.all()\<close>: it returns the \<^verbatim>\<open>Query\<close> object
  itself, and the statement runs when the caller iterates over it.
\<close>

definition get_task_failure_counts :: "world \<Rightarrow> (error + task_failure_row pyquery) \<times> world" where
  "get_task_failure_counts =
     session_scope (\<lambda>w. (Inr (Query TaskFailureCounts task_failure_rows), w))"

definition get_task_duration_info :: "world \<Rightarrow> (error + task_duration_row list) \<times> world" where
  "get_task_duration_info = session_scope (query_all (Query TaskDurationInfo task_duration_rows))"

definition get_dag_scheduler_delay :: "world \<Rightarrow> (error + dag_delay_row list) \<times> world" where
  "get_dag_scheduler_delay =
     session_scope (query_all (Query DagSchedulerDelay dag_scheduler_delay_rows))"

definition get_task_scheduler_delay :: "world \<Rightarrow> (error + task_delay_row list) \<times> world" where
  "get_task_scheduler_delay =
     session_scope (query_all (Query TaskSchedulerDelay task_scheduler_delay_rows))"

definition get_num_queued_tasks :: "world \<Rightarrow> (error + int) \<times> world" where
  "get_num_queued_tasks = session_scope (query_count (Query NumQueuedTasks queued_tasks))"

section \<open>Gauge families and Python values\<close>

text \<open>
  A sample value is a Python \<^verbatim>\<open>int\<close> (a count) or a \<^verbatim>\<open>float\<close> (seconds). The float is
  kept as the exact rational it stands for: rounding to a double is not modelled. A label
  value is a string, or \<open>None\<close> where the code hands Python's \<^verbatim>\<open>None\<close> to
  \<^verbatim>\<open>add_metric\<close>, which stores what it is given.
\<close>

datatype number = IntVal int | FloatVal rat

type_synonym label = "string option"

record gauge_family =
  name :: string
  documentation :: string
  labelnames :: "string list"
  samples :: "(label list \<times> number) list"

definition GaugeMetricFamily :: "string \<Rightarrow> string \<Rightarrow> string list \<Rightarrow> gauge_family" where
  "GaugeMetricFamily n doc ls = \<lparr>name = n, documentation = doc, labelnames = ls, samples = []\<rparr>"

definition add_metric :: "gauge_family \<Rightarrow> label list \<Rightarrow> number \<Rightarrow> gauge_family" where
  "add_metric fam ls v = fam\<lparr>samples := samples fam @ [(ls, v)]\<rparr>"

text \<open>What a local variable of \<^verbatim>\<open>collect\<close> may hold: a number or a gauge family.\<close>

datatype pyobj = Num number | Family gauge_family

text \<open>
  Looking up the attribute \<^verbatim>\<open>add_metric\<close> on an object: a family has the method, a
  float has not. Python looks the attribute up before it evaluates the arguments.
\<close>

fun getattr_add_metric :: "pyobj \<Rightarrow> error + (label list \<Rightarrow> number \<Rightarrow> pyobj)" where
  "getattr_add_metric (Family fam) = Inr (\<lambda>ls v. Family (add_metric fam ls v))"
| "getattr_add_metric (Num _) = Inl AttributeError"

text \<open>
  \<^verbatim>\<open>a - b\<close> on two timestamps is a \<^verbatim>\<open>timedelta\<close>, kept in microseconds; with \<^verbatim>\<open>None\<close>
  on either side it raises \<^verbatim>\<open>TypeError\<close>.
\<close>

fun datetime_sub :: "datetime option \<Rightarrow> datetime option \<Rightarrow> error + int" where
  "datetime_sub (Some a) (Some b) = Inr (a - b)"
| "datetime_sub _ _ = Inl TypeError"

definition total_seconds :: "int \<Rightarrow> rat" where
  "total_seconds delta = of_int delta / 1000000"

text \<open>\<^verbatim>\<open>x or 'none'\<close>: \<^verbatim>\<open>None\<close> and the empty string are both false in Python.\<close>

fun or_none :: "string option \<Rightarrow> string" where
  "or_none None = ''none''"
| "or_none (Some s) = (if s = [] then ''none'' else s)"

text \<open>A \<^verbatim>\<open>for\<close> loop whose body may raise: the first error ends the loop.\<close>

fun for_each :: "('r \<Rightarrow> 'v \<Rightarrow> error + 'v) \<Rightarrow> 'r list \<Rightarrow> 'v \<Rightarrow> error + 'v" where
  "for_each body [] v = Inr v"
| "for_each body (r # rs) v =
     (case body r v of Inl e \<Rightarrow> Inl e | Inr v' \<Rightarrow> for_each body rs v')"

definition call_add_metric :: "pyobj \<Rightarrow> label list \<Rightarrow> number \<Rightarrow> error + pyobj" where
  "call_add_metric obj ls v =
     (case getattr_add_metric obj of Inl e \<Rightarrow> Inl e | Inr method \<Rightarrow> Inr (method ls v))"

text \<open>Calling a query-layer function and going on with its result, unless it raised.\<close>

definition then_do ::
  "(world \<Rightarrow> (error + 'a) \<times> world) \<Rightarrow> ('a \<Rightarrow> world \<Rightarrow> (error + 'b) \<times> world)
     \<Rightarrow> world \<Rightarrow> (error + 'b) \<times> world" where
  "then_do call rest w =
     (case call w of (Inl e, w') \<Rightarrow> (Inl e, w') | (Inr x, w') \<Rightarrow> rest x w')"

section \<open>The collector\<close>

text \<open>
  Each of the eight parts of \<^verbatim>\<open>MetricsCollector.collect\<close> builds one family and yields
  what its variable holds at the \<^verbatim>\<open>yield\<close>; a part that raises yields nothing.
\<close>

definition t_state :: gauge_family where
  "t_state = GaugeMetricFamily ''airflow_task_status''
     ''Shows the number of task instances with particular status''
     [''dag_id'', ''task_id'', ''owner'', ''status'']"

definition task_status_body :: "task_state_row \<Rightarrow> pyobj \<Rightarrow> error + pyobj" where
  "task_status_body = (\<lambda>(dag_id, task_id, state, val, owners) t_state.
     call_add_metric t_state
       [Some dag_id, Some task_id, Some owners, Some (or_none state)] (IntVal val))"

definition task_status_part :: "world \<Rightarrow> (error + pyobj) \<times> world" where
  "task_status_part =
     then_do get_task_state_info
       (\<lambda>task_info w. (for_each task_status_body task_info (Family t_state), w))"

definition task_duration :: gauge_family where
  "task_duration = GaugeMetricFamily ''airflow_task_duration''
     ''Duration of successful tasks in seconds''
     [''task_id'', ''dag_id'', ''execution_date'']"

text \<open>
  The loop body first rebinds the variable \<^verbatim>\<open>task_duration\<close> to the float, then calls
  \<^verbatim>\<open>task_duration.add_metric\<close> with that variable as the value. \<open>date_str\<close> stands for
  \<^verbatim>\<open>str(d.date())\<close> of the standard library.
\<close>

definition task_duration_body ::
  "(datetime \<Rightarrow> string) \<Rightarrow> task_duration_row \<Rightarrow> pyobj \<Rightarrow> error + pyobj" where
  "task_duration_body date_str = (\<lambda>(dag_id, task_id, start_date, end_date, execution_date) _.
     (case datetime_sub end_date start_date of
        Inl e \<Rightarrow> Inl e
      | Inr delta \<Rightarrow>
          (let seconds = FloatVal (total_seconds delta);
               task_duration = Num seconds
           in (case getattr_add_metric task_duration of
                 Inl e \<Rightarrow> Inl e
               | Inr method \<Rightarrow>
                   (case execution_date of
                      None \<Rightarrow> Inl AttributeError
                    | Some d \<Rightarrow>
                        Inr (method [Some task_id, Some dag_id, Some (date_str d)] seconds))))))"

definition task_duration_part :: "(datetime \<Rightarrow> string) \<Rightarrow> world \<Rightarrow> (error + pyobj) \<times> world" where
  "task_duration_part date_str =
     then_do get_task_duration_info
       (\<lambda>rows w. (for_each (task_duration_body date_str) rows (Family task_duration), w))"

definition task_failure_count :: gauge_family where
  "task_failure_count = GaugeMetricFamily ''airflow_task_fail_count''
     ''Count of failed tasks'' [''dag_id'', ''task_id'']"

definition task_failure_body :: "task_failure_row \<Rightarrow> pyobj \<Rightarrow> error + pyobj" where
  "task_failure_body = (\<lambda>(dag_id, task_id, count) task_failure_count.
     call_add_metric task_failure_count [Some dag_id, Some task_id] (IntVal count))"

definition task_failure_part :: "world \<Rightarrow> (error + pyobj) \<times> world" where
  "task_failure_part =
     then_do get_task_failure_counts
       (\<lambda>q. then_do (query_iter q)
          (\<lambda>rows w. (for_each task_failure_body rows (Family task_failure_count), w)))"

definition d_state :: gauge_family where
  "d_state = GaugeMetricFamily ''airflow_dag_status''
     ''Shows the number of dag starts with this status'' [''dag_id'', ''owner'', ''status'']"

text \<open>Here \<^verbatim>\<open>dag.state\<close> is the label as it comes, with no \<^verbatim>\<open>or 'none'\<close>.\<close>

definition dag_status_body :: "dag_state_row \<Rightarrow> pyobj \<Rightarrow> error + pyobj" where
  "dag_status_body = (\<lambda>(dag_id, state, count, owners) d_state.
     call_add_metric d_state [Some dag_id, Some owners, state] (IntVal count))"

definition dag_status_part :: "world \<Rightarrow> (error + pyobj) \<times> world" where
  "dag_status_part =
     then_do get_dag_state_info
       (\<lambda>dag_info w. (for_each dag_status_body dag_info (Family d_state), w))"

definition dag_duration :: gauge_family where
  "dag_duration = GaugeMetricFamily ''airflow_dag_run_duration''
     ''Duration of successful dag_runs in seconds'' [''dag_id'']"

definition dag_duration_body :: "dag_duration_row \<Rightarrow> pyobj \<Rightarrow> error + pyobj" where
  "dag_duration_body = (\<lambda>(dag_id, start_date, end_date) _.
     (case datetime_sub end_date start_date of
        Inl e \<Rightarrow> Inl e
      | Inr delta \<Rightarrow>
          (let seconds = FloatVal (total_seconds delta);
               dag_duration = Num seconds
           in (case getattr_add_metric dag_duration of
                 Inl e \<Rightarrow> Inl e
               | Inr method \<Rightarrow> Inr (method [Some dag_id] seconds)))))"

definition dag_duration_part :: "world \<Rightarrow> (error + pyobj) \<times> world" where
  "dag_duration_part =
     then_do get_dag_duration_info
       (\<lambda>rows w. (for_each dag_duration_body rows (Family dag_duration), w))"

definition dag_scheduler_delay :: gauge_family where
  "dag_scheduler_delay = GaugeMetricFamily ''airflow_dag_scheduler_delay''
     ''Airflow DAG scheduling delay'' [''dag_id'']"

definition dag_scheduler_delay_body :: "dag_delay_row \<Rightarrow> pyobj \<Rightarrow> error + pyobj" where
  "dag_scheduler_delay_body = (\<lambda>(dag_id, execution_date, start_date) dag_scheduler_delay.
     (case datetime_sub start_date (Some execution_date) of
        Inl e \<Rightarrow> Inl e
      | Inr delta \<Rightarrow>
          (let dag_scheduling_delay = FloatVal (total_seconds delta)
           in call_add_metric dag_scheduler_delay [Some dag_id] dag_scheduling_delay)))"

definition dag_scheduler_delay_part :: "world \<Rightarrow> (error + pyobj) \<times> world" where
  "dag_scheduler_delay_part =
     then_do get_dag_scheduler_delay
       (\<lambda>rows w. (for_each dag_scheduler_delay_body rows (Family dag_scheduler_delay), w))"

definition task_scheduler_delay :: gauge_family where
  "task_scheduler_delay = GaugeMetricFamily ''airflow_task_scheduler_delay''
     ''Airflow Task scheduling delay'' [''queue'']"

definition task_scheduler_delay_body :: "task_delay_row \<Rightarrow> pyobj \<Rightarrow> error + pyobj" where
  "task_scheduler_delay_body = (\<lambda>(queue, execution_date, queued_dttm, start_date) task_scheduler_delay.
     (case datetime_sub start_date queued_dttm of
        Inl e \<Rightarrow> Inl e
      | Inr delta \<Rightarrow>
          (let task_scheduling_delay = FloatVal (total_seconds delta)
           in call_add_metric task_scheduler_delay [Some queue] task_scheduling_delay)))"

definition task_scheduler_delay_part :: "world \<Rightarrow> (error + pyobj) \<times> world" where
  "task_scheduler_delay_part =
     then_do get_task_scheduler_delay
       (\<lambda>rows w. (for_each task_scheduler_delay_body rows (Family task_scheduler_delay), w))"

definition num_queued_tasks_metric :: gauge_family where
  "num_queued_tasks_metric = GaugeMetricFamily ''airflow_num_queued_tasks''
     ''Airflow Number of Queued Tasks'' []"

definition num_queued_tasks_part :: "world \<Rightarrow> (error + pyobj) \<times> world" where
  "num_queued_tasks_part =
     then_do get_num_queued_tasks
       (\<lambda>num_queued_tasks w.
          (call_add_metric (Family num_queued_tasks_metric) [] (IntVal num_queued_tasks), w))"

text \<open>
  \<^verbatim>\<open>collect\<close> is a generator. Run to its end it has yielded a list of objects and
  either returned (\<open>None\<close>) or raised (\<open>Some e\<close>); what was yielded before the error has
  reached the consumer.
\<close>

record scrape =
  yielded :: "pyobj list"
  raised :: "error option"

fun run_parts :: "(world \<Rightarrow> (error + pyobj) \<times> world) list \<Rightarrow> world \<Rightarrow> scrape \<times> world" where
  "run_parts [] w = (\<lparr>yielded = [], raised = None\<rparr>, w)"
| "run_parts (part # rest) w =
     (case part w of
        (Inl e, w') \<Rightarrow> (\<lparr>yielded = [], raised = Some e\<rparr>, w')
      | (Inr obj, w') \<Rightarrow>
          (case run_parts rest w' of (r, w'') \<Rightarrow> (r\<lparr>yielded := obj # yielded r\<rparr>, w'')))"

definition parts :: "(datetime \<Rightarrow> string) \<Rightarrow> (world \<Rightarrow> (error + pyobj) \<times> world) list" where
  "parts date_str =
     [task_status_part, task_duration_part date_str, task_failure_part, dag_status_part,
      dag_duration_part, dag_scheduler_delay_part, task_scheduler_delay_part,
      num_queued_tasks_part]"

definition collect :: "(datetime \<Rightarrow> string) \<Rightarrow> world \<Rightarrow> scrape \<times> world" where
  "collect date_str = run_parts (parts date_str)"

section \<open>Notions used in the statements\<close>

text \<open>What a query-layer function that runs its statement inside its scope leaves behind.\<close>

definition scoped :: "query \<Rightarrow> world \<Rightarrow> world" where
  "scoped q w = w\<lparr>trace := trace w @ [Enter, Execute q, Close]\<rparr>"

definition run_query :: "query \<Rightarrow> (store \<Rightarrow> 'a) \<Rightarrow> store \<Rightarrow> error + 'a" where
  "run_query q sel st = (if unavailable st q then Inl StoreError else Inr (sel st))"

text \<open>
  Every statement of a trace is executed between an \<open>Enter\<close> and the \<open>Close\<close> that
  follows it; \<open>inside\<close> tells whether a scope is open at the start of the trace.
\<close>

fun reads_in_scope :: "bool \<Rightarrow> event list \<Rightarrow> bool" where
  "reads_in_scope inside [] = True"
| "reads_in_scope inside (Enter # es) = reads_in_scope True es"
| "reads_in_scope inside (Close # es) = reads_in_scope False es"
| "reads_in_scope inside (Execute q # es) = (inside \<and> reads_in_scope inside es)"

text \<open>
  Whether the one session of the module holds a connection after a trace: executing a
  statement opens it, \<^verbatim>\<open>close()\<close> releases it. \<open>b\<close> is its state before the trace.
\<close>

fun session_open :: "bool \<Rightarrow> event list \<Rightarrow> bool" where
  "session_open b [] = b"
| "session_open b (Enter # es) = session_open b es"
| "session_open b (Execute q # es) = session_open True es"
| "session_open b (Close # es) = session_open False es"



text \<open>The name and the label names of a yielded family.\<close>

definition schema :: "pyobj \<Rightarrow> (string \<times> string list) option" where
  "schema obj = (case obj of Family fam \<Rightarrow> Some (name fam, labelnames fam) | Num _ \<Rightarrow> None)"

text \<open>The families \<^verbatim>\<open>collect\<close> builds, in the order of its \<^verbatim>\<open>yield\<close> statements.\<close>

definition catalog :: "(string \<times> string list) list" where
  "catalog =
     [(''airflow_task_status'', [''dag_id'', ''task_id'', ''owner'', ''status'']),
      (''airflow_task_duration'', [''task_id'', ''dag_id'', ''execution_date'']),
      (''airflow_task_fail_count'', [''dag_id'', ''task_id'']),
      (''airflow_dag_status'', [''dag_id'', ''owner'', ''status'']),
      (''airflow_dag_run_duration'', [''dag_id'']),
      (''airflow_dag_scheduler_delay'', [''dag_id'']),
      (''airflow_task_scheduler_delay'', [''queue'']),
      (''airflow_num_queued_tasks'', [])]"

text \<open>
  The catalog in the words of the specification (section 4.2), which names the families
  \<^verbatim>\<open>workflow_...\<close>.
\<close>

definition spec_catalog :: "(string \<times> string list) list" where
  "spec_catalog =
     [(''workflow_task_status'', [''dag_id'', ''task_id'', ''owner'', ''status'']),
      (''workflow_task_duration'', [''task_id'', ''dag_id'', ''execution_date'']),
      (''workflow_task_fail_count'', [''dag_id'', ''task_id'']),
      (''workflow_dag_status'', [''dag_id'', ''owner'', ''status'']),
      (''workflow_dag_run_duration'', [''dag_id'']),
      (''workflow_dag_scheduler_delay'', [''dag_id'']),
      (''workflow_task_scheduler_delay'', [''queue'']),
      (''workflow_num_queued_tasks'', [])]"

text \<open>The samples an object carries if it is one of the two duration families.\<close>

definition duration_samples :: "pyobj \<Rightarrow> (label list \<times> number) list" where
  "duration_samples obj =
     (case obj of
        Family fam \<Rightarrow>
          if name fam = ''airflow_task_duration'' \<or> name fam = ''airflow_dag_run_duration''
          then samples fam else []
      | Num _ \<Rightarrow> [])"

text \<open>A part never changes the store, and its outcome depends on the store alone.\<close>

definition reads_only :: "(world \<Rightarrow> (error + pyobj) \<times> world) \<Rightarrow> bool" where
  "reads_only p = (\<forall>w. db (snd (p w)) = db w)"

definition store_determined :: "(world \<Rightarrow> (error + pyobj) \<times> world) \<Rightarrow> bool" where
  "store_determined p = (\<forall>w w'. db w = db w' \<longrightarrow> fst (p w) = fst (p w'))"

text \<open>A part that, when it yields, yields a family of the given name and label names,
  with no sample in it if it is a duration family.\<close>

definition yields_family :: "(world \<Rightarrow> (error + pyobj) \<times> world) \<Rightarrow> string \<times> string list \<Rightarrow> bool" where
  "yields_family p c =
     (\<forall>w ob. fst (p w) = Inr ob \<longrightarrow> schema ob = Some c \<and> duration_samples ob = [])"





text \<open>A duration row with both of its dates.\<close>

definition dated :: "datetime option \<Rightarrow> datetime option \<Rightarrow> bool" where
  "dated start_date end_date = (start_date \<noteq> None \<and> end_date \<noteq> None)"

text \<open>
  The orchestrator's schema keeps \<^verbatim>\<open>(dag_id, execution_date)\<close> unique in the table of DAG
  runs. The ORM classes are not part of the exporter, so the constraint is a hypothesis
  where it is needed.
\<close>

definition unique_runs :: "store \<Rightarrow> bool" where
  "unique_runs st = distinct (map (\<lambda>r. (dr_dag_id r, dr_execution_date r)) (dag_run st))"

text \<open>
  A run that succeeded, has an end date, and has the greatest execution date among such
  runs of its workflow; and the least start date among the task instances of a run.
\<close>

definition latest_completed :: "store \<Rightarrow> DagRun \<Rightarrow> bool" where
  "latest_completed st r =
     (completed r \<and>
      (\<forall>r' \<in> set (dag_run st). dr_dag_id r' = dr_dag_id r \<and> completed r'
          \<longrightarrow> dr_execution_date r' \<le> dr_execution_date r))"

definition run_start :: "store \<Rightarrow> DagRun \<Rightarrow> datetime option" where
  "run_start st r =
     func_min (map ti_start_date
       (filter (\<lambda>t. ti_dag_id t = dr_dag_id r \<and> ti_execution_date t = dr_execution_date r)
               (task_instance st)))"

section \<open>Example stores\<close>

text \<open>A world with the given store in which nothing has happened yet.\<close>

definition world_of :: "store \<Rightarrow> world" where
  "world_of st = \<lparr>db = st, trace = []\<rparr>"

text \<open>
  A stand-in for \<^verbatim>\<open>str(d.date())\<close> where a concrete collection is evaluated. No
  evaluation calls it: the attribute lookup on the float fails first.
\<close>

definition no_date :: "datetime \<Rightarrow> string" where
  "no_date = (\<lambda>_. [])"

definition empty_store :: store where
  "empty_store = \<lparr>dag = [], dag_run = [], task_instance = [], task_fail = [], unavailable = (\<lambda>_. False)\<rparr>"

text \<open>
  One workflow with a successful run; its task \<^verbatim>\<open>extract\<close> ran from second 2 to second
  7, its task \<^verbatim>\<open>load\<close> is queued, and one failure is recorded.
\<close>

definition etl_store :: store where
  "etl_store = \<lparr>
     dag = [\<lparr>dm_dag_id = ''etl_daily'', dm_owners = ''data''\<rparr>],
     dag_run = [\<lparr>dr_dag_id = ''etl_daily'', dr_state = Some ''success'', dr_execution_date = 0,
                 dr_start_date = Some 1000000, dr_end_date = Some 9000000\<rparr>],
     task_instance = [\<lparr>ti_dag_id = ''etl_daily'', ti_task_id = ''extract'', ti_state = Some ''success'',
                 ti_queue = ''default'', ti_execution_date = 0, ti_start_date = Some 2000000,
                 ti_end_date = Some 7000000, ti_queued_dttm = Some 1500000\<rparr>,
                 \<lparr>ti_dag_id = ''etl_daily'', ti_task_id = ''load'', ti_state = Some ''queued'',
                 ti_queue = ''default'', ti_execution_date = 0, ti_start_date = None,
                 ti_end_date = None, ti_queued_dttm = Some 7500000\<rparr>],
     task_fail = [\<lparr>tf_dag_id = ''etl_daily'', tf_task_id = ''extract''\<rparr>],
     unavailable = (\<lambda>_. False)\<rparr>"

text \<open>
  A successful run whose only task instance was skipped, and a queued task instance of
  another workflow: the task-duration statement returns nothing, the DAG-run-duration
  statement one row.
\<close>

definition skipped_store :: store where
  "skipped_store = \<lparr>
     dag = [\<lparr>dm_dag_id = ''etl_daily'', dm_owners = ''data''\<rparr>,
            \<lparr>dm_dag_id = ''report'', dm_owners = ''bi''\<rparr>],
     dag_run = [\<lparr>dr_dag_id = ''etl_daily'', dr_state = Some ''success'', dr_execution_date = 0,
                 dr_start_date = Some 1000000, dr_end_date = Some 9000000\<rparr>],
     task_instance = [\<lparr>ti_dag_id = ''etl_daily'', ti_task_id = ''extract'', ti_state = Some ''skipped'',
                 ti_queue = ''default'', ti_execution_date = 0, ti_start_date = Some 2000000,
                 ti_end_date = Some 2000000, ti_queued_dttm = None\<rparr>,
                 \<lparr>ti_dag_id = ''report'', ti_task_id = ''render'', ti_state = Some ''queued'',
                 ti_queue = ''default'', ti_execution_date = 0, ti_start_date = None,
                 ti_end_date = None, ti_queued_dttm = Some 7500000\<rparr>],
     task_fail = [],
     unavailable = (\<lambda>_. False)\<rparr>"

text \<open>The canary workflow with a failed and a running run: no duration row at all.\<close>

definition canary_store :: store where
  "canary_store = \<lparr>
     dag = [\<lparr>dm_dag_id = ''canary_dag'', dm_owners = ''ops''\<rparr>],
     dag_run = [\<lparr>dr_dag_id = ''canary_dag'', dr_state = Some ''running'', dr_execution_date = 60000000,
                 dr_start_date = Some 63000000, dr_end_date = None\<rparr>,
                \<lparr>dr_dag_id = ''canary_dag'', dr_state = Some ''failed'', dr_execution_date = 0,
                 dr_start_date = Some 1000000, dr_end_date = Some 2000000\<rparr>],
     task_instance = [\<lparr>ti_dag_id = ''canary_dag'', ti_task_id = ''ping'', ti_state = Some ''running'',
                 ti_queue = ''default'', ti_execution_date = 60000000, ti_start_date = Some 65000000,
                 ti_end_date = None, ti_queued_dttm = Some 64000000\<rparr>,
                 \<lparr>ti_dag_id = ''canary_dag'', ti_task_id = ''pong'', ti_state = None,
                 ti_queue = ''default'', ti_execution_date = 60000000, ti_start_date = None,
                 ti_end_date = None, ti_queued_dttm = None\<rparr>],
     task_fail = [\<lparr>tf_dag_id = ''canary_dag'', tf_task_id = ''ping''\<rparr>],
     unavailable = (\<lambda>_. False)\<rparr>"


text \<open>
  Four runs of one workflow: two successful ones with an end date, then a failed one and
  one that has no end date yet.
\<close>

definition runs_store :: store where
  "runs_store = \<lparr>
     dag = [\<lparr>dm_dag_id = ''etl_daily'', dm_owners = ''data''\<rparr>],
     dag_run = [\<lparr>dr_dag_id = ''etl_daily'', dr_state = Some ''success'', dr_execution_date = 0,
                 dr_start_date = Some 1000000, dr_end_date = Some 9000000\<rparr>,
                \<lparr>dr_dag_id = ''etl_daily'', dr_state = Some ''success'', dr_execution_date = 100000000,
                 dr_start_date = Some 101000000, dr_end_date = Some 109000000\<rparr>,
                \<lparr>dr_dag_id = ''etl_daily'', dr_state = Some ''failed'', dr_execution_date = 200000000,
                 dr_start_date = Some 201000000, dr_end_date = Some 202000000\<rparr>,
                \<lparr>dr_dag_id = ''etl_daily'', dr_state = Some ''success'', dr_execution_date = 300000000,
                 dr_start_date = Some 301000000, dr_end_date = None\<rparr>],
     task_instance = [\<lparr>ti_dag_id = ''etl_daily'', ti_task_id = ''extract'', ti_state = Some ''failed'',
                 ti_queue = ''default'', ti_execution_date = 100000000, ti_start_date = Some 102000000,
                 ti_end_date = Some 103000000, ti_queued_dttm = Some 101500000\<rparr>,
                 \<lparr>ti_dag_id = ''etl_daily'', ti_task_id = ''load'', ti_state = Some ''skipped'',
                 ti_queue = ''default'', ti_execution_date = 100000000, ti_start_date = Some 104000000,
                 ti_end_date = Some 108000000, ti_queued_dttm = None\<rparr>,
                 \<lparr>ti_dag_id = ''etl_daily'', ti_task_id = ''extract'', ti_state = Some ''failed'',
                 ti_queue = ''default'', ti_execution_date = 200000000, ti_start_date = Some 201500000,
                 ti_end_date = Some 202000000, ti_queued_dttm = None\<rparr>,
                 \<lparr>ti_dag_id = ''etl_daily'', ti_task_id = ''extract'', ti_state = Some ''running'',
                 ti_queue = ''default'', ti_execution_date = 300000000, ti_start_date = Some 301500000,
                 ti_end_date = None, ti_queued_dttm = None\<rparr>],
     task_fail = [],
     unavailable = (\<lambda>_. False)\<rparr>"

text \<open>
  A task instance of another workflow in the same queue and with the same start date as
  the canary's latest task instance.
\<close>

definition shared_queue_store :: store where
  "shared_queue_store = \<lparr>
     dag = [\<lparr>dm_dag_id = ''canary_dag'', dm_owners = ''ops''\<rparr>,
            \<lparr>dm_dag_id = ''etl_daily'', dm_owners = ''data''\<rparr>],
     dag_run = [],
     task_instance = [\<lparr>ti_dag_id = ''canary_dag'', ti_task_id = ''ping'', ti_state = Some ''running'',
                 ti_queue = ''default'', ti_execution_date = 60000000, ti_start_date = Some 65000000,
                 ti_end_date = None, ti_queued_dttm = Some 64000000\<rparr>,
                 \<lparr>ti_dag_id = ''etl_daily'', ti_task_id = ''extract'', ti_state = Some ''running'',
                 ti_queue = ''default'', ti_execution_date = 0, ti_start_date = Some 65000000,
                 ti_end_date = None, ti_queued_dttm = Some 5000000\<rparr>],
     task_fail = [],
     unavailable = (\<lambda>_. False)\<rparr>"

text \<open>A DAG run whose state is NULL.\<close>

definition null_state_store :: store where
  "null_state_store = \<lparr>
     dag = [\<lparr>dm_dag_id = ''etl_daily'', dm_owners = ''data''\<rparr>],
     dag_run = [\<lparr>dr_dag_id = ''etl_daily'', dr_state = None, dr_execution_date = 0,
                 dr_start_date = Some 1000000, dr_end_date = None\<rparr>],
     task_instance = [],
     task_fail = [],
     unavailable = (\<lambda>_. False)\<rparr>"

section \<open>Sessions, loops and parts\<close>

subsection \<open>The scope of a statement\<close>

lemma scope_all:
  "session_scope (query_all (Query q sel)) w = (run_query q sel (db w), scoped q w)"
  by (simp add: session_scope_def emit_def scoped_def run_query_def)

lemma scope_count:
  "session_scope (query_count (Query q sel)) w = (run_query q (\<lambda>st. int (length (sel st))) (db w), scoped q w)"
  by (simp add: session_scope_def emit_def scoped_def run_query_def)

lemma db_scoped [simp]: "db (scoped q w) = db w"
  by (simp add: scoped_def)

text \<open>
  Seven of the eight functions execute their statement between entering and closing the
  scope, whether the statement fails or not.
\<close>

lemma query_layer_scoped:
  "trace (snd (get_dag_state_info w)) = trace w @ [Enter, Execute DagStateInfo, Close]"
  "trace (snd (get_dag_duration_info w)) = trace w @ [Enter, Execute DagDurationInfo, Close]"
  "trace (snd (get_task_state_info w)) = trace w @ [Enter, Execute TaskStateInfo, Close]"
  "trace (snd (get_task_duration_info w)) = trace w @ [Enter, Execute TaskDurationInfo, Close]"
  "trace (snd (get_dag_scheduler_delay w)) = trace w @ [Enter, Execute DagSchedulerDelay, Close]"
  "trace (snd (get_task_scheduler_delay w)) = trace w @ [Enter, Execute TaskSchedulerDelay, Close]"
  "trace (snd (get_num_queued_tasks w)) = trace w @ [Enter, Execute NumQueuedTasks, Close]"
  by (simp_all add: get_dag_state_info_def get_dag_duration_info_def get_task_state_info_def
      get_task_duration_info_def get_dag_scheduler_delay_def get_task_scheduler_delay_def
      get_num_queued_tasks_def scope_all scope_count scoped_def)

lemma get_task_failure_counts_eq:
  "get_task_failure_counts w =
     (Inr (Query TaskFailureCounts task_failure_rows), w\<lparr>trace := trace w @ [Enter, Close]\<rparr>)"
  by (simp add: get_task_failure_counts_def session_scope_def emit_def)

subsection \<open>Loops\<close>

lemma call_add_metric_Family:
  "call_add_metric (Family fam) ls v = Inr (Family (add_metric fam ls v))"
  by (simp add: call_add_metric_def)

lemma call_add_metric_Num: "call_add_metric (Num x) ls v = Inl AttributeError"
  by (simp add: call_add_metric_def)

text \<open>A loop whose body only adds one sample per row.\<close>

lemma for_each_adds:
  assumes "\<And>r fam. body r (Family fam) = Inr (Family (add_metric fam (fst (smp r)) (snd (smp r))))"
  shows "for_each body rows (Family fam) = Inr (Family (fam\<lparr>samples := samples fam @ map smp rows\<rparr>))"
proof (induction rows arbitrary: fam)
  case Nil
  then show ?case by simp
next
  case (Cons r rows)
  show ?case
    by (simp add: assms Cons.IH add_metric_def)
qed

text \<open>A loop whose body keeps the family's name and label names.\<close>

lemma for_each_family:
  assumes "\<And>r fam ob. body r (Family fam) = Inr ob \<Longrightarrow>
             \<exists>fam'. ob = Family fam' \<and> name fam' = name fam \<and> labelnames fam' = labelnames fam"
    and "for_each body rows (Family fam) = Inr ob"
  shows "\<exists>fam'. ob = Family fam' \<and> name fam' = name fam \<and> labelnames fam' = labelnames fam"
  using assms(2)
proof (induction rows arbitrary: fam)
  case Nil
  then show ?case by auto
next
  case (Cons r rows)
  from Cons.prems obtain v' where b: "body r (Family fam) = Inr v'"
    and f: "for_each body rows v' = Inr ob"
    by (auto split: sum.splits)
  from assms(1)[OF b] obtain fam' where v': "v' = Family fam'"
    and s: "name fam' = name fam" "labelnames fam' = labelnames fam"
    by blast
  from Cons.IH[of fam'] f v' s show ?case by auto
qed

lemma task_status_loop:
  "for_each task_status_body rows (Family fam) =
     Inr (Family (fam\<lparr>samples := samples fam @
        map (\<lambda>(d, t, s, v, ow). ([Some d, Some t, Some ow, Some (or_none s)], IntVal v)) rows\<rparr>))"
  by (rule for_each_adds) (simp add: task_status_body_def call_add_metric_Family split: prod.splits)

lemma task_failure_loop:
  "for_each task_failure_body rows (Family fam) =
     Inr (Family (fam\<lparr>samples := samples fam @
        map (\<lambda>(d, t, c). ([Some d, Some t], IntVal c)) rows\<rparr>))"
  by (rule for_each_adds) (simp add: task_failure_body_def call_add_metric_Family split: prod.splits)

lemma dag_status_loop:
  "for_each dag_status_body rows (Family fam) =
     Inr (Family (fam\<lparr>samples := samples fam @
        map (\<lambda>(d, s, c, ow). ([Some d, Some ow, s], IntVal c)) rows\<rparr>))"
  by (rule for_each_adds) (simp add: dag_status_body_def call_add_metric_Family split: prod.splits)

lemma or_none_cases:
  "or_none None = ''none''" "s \<noteq> [] \<Longrightarrow> or_none (Some s) = s"
  by simp_all

text \<open>
  The body of either duration loop raises on every row, whatever the variable holds:
  \<^verbatim>\<open>TypeError\<close> from the subtraction when a date is \<^verbatim>\<open>None\<close>, else
  \<^verbatim>\<open>AttributeError\<close> from \<^verbatim>\<open>add_metric\<close> looked up on the float.
\<close>

lemma task_duration_body_eq:
  "task_duration_body ds (d, t, s, e, x) v =
     Inl (if s = None \<or> e = None then TypeError else AttributeError)"
  by (cases s; cases e) (simp_all add: task_duration_body_def)

lemma dag_duration_body_eq:
  "dag_duration_body (d, s, e) v =
     Inl (if s = None \<or> e = None then TypeError else AttributeError)"
  by (cases s; cases e) (simp_all add: dag_duration_body_def)

lemma task_duration_loop:
  "for_each (task_duration_body ds) rows v =
     (case rows of [] \<Rightarrow> Inr v
      | (d, t, s, e, x) # _ \<Rightarrow> Inl (if s = None \<or> e = None then TypeError else AttributeError))"
  by (cases rows) (auto simp: task_duration_body_eq)

lemma dag_duration_loop:
  "for_each dag_duration_body rows v =
     (case rows of [] \<Rightarrow> Inr v
      | (d, s, e) # _ \<Rightarrow> Inl (if s = None \<or> e = None then TypeError else AttributeError))"
  by (cases rows) (auto simp: dag_duration_body_eq)

lemma dag_scheduler_delay_body_family:
  "dag_scheduler_delay_body r (Family fam) = Inr ob \<Longrightarrow>
     \<exists>fam'. ob = Family fam' \<and> name fam' = name fam \<and> labelnames fam' = labelnames fam"
  by (cases r)
     (auto simp: dag_scheduler_delay_body_def call_add_metric_Family add_metric_def
        split: sum.splits)

lemma task_scheduler_delay_body_family:
  "task_scheduler_delay_body r (Family fam) = Inr ob \<Longrightarrow>
     \<exists>fam'. ob = Family fam' \<and> name fam' = name fam \<and> labelnames fam' = labelnames fam"
  by (cases r)
     (auto simp: task_scheduler_delay_body_def call_add_metric_Family add_metric_def
        split: sum.splits)

subsection \<open>The parts of the collector\<close>

lemma task_status_part_eq:
  "task_status_part w =
     (if unavailable (db w) TaskStateInfo then Inl StoreError
      else for_each task_status_body (task_state_rows (db w)) (Family t_state),
      scoped TaskStateInfo w)"
  by (simp add: task_status_part_def get_task_state_info_def scope_all then_do_def run_query_def)

lemma task_duration_part_eq:
  "task_duration_part ds w =
     (if unavailable (db w) TaskDurationInfo then Inl StoreError
      else for_each (task_duration_body ds) (task_duration_rows (db w)) (Family task_duration),
      scoped TaskDurationInfo w)"
  by (simp add: task_duration_part_def get_task_duration_info_def scope_all then_do_def run_query_def)

lemma task_failure_part_eq:
  "task_failure_part w =
     (if unavailable (db w) TaskFailureCounts then Inl StoreError
      else for_each task_failure_body (task_failure_rows (db w)) (Family task_failure_count),
      w\<lparr>trace := trace w @ [Enter, Close, Execute TaskFailureCounts]\<rparr>)"
  by (simp add: task_failure_part_def get_task_failure_counts_def session_scope_def then_do_def
      query_iter_def emit_def)

lemma dag_status_part_eq:
  "dag_status_part w =
     (if unavailable (db w) DagStateInfo then Inl StoreError
      else for_each dag_status_body (dag_state_rows (db w)) (Family d_state),
      scoped DagStateInfo w)"
  by (simp add: dag_status_part_def get_dag_state_info_def scope_all then_do_def run_query_def)

lemma dag_duration_part_eq:
  "dag_duration_part w =
     (if unavailable (db w) DagDurationInfo then Inl StoreError
      else for_each dag_duration_body (dag_duration_rows (db w)) (Family dag_duration),
      scoped DagDurationInfo w)"
  by (simp add: dag_duration_part_def get_dag_duration_info_def scope_all then_do_def run_query_def)

lemma dag_scheduler_delay_part_eq:
  "dag_scheduler_delay_part w =
     (if unavailable (db w) DagSchedulerDelay then Inl StoreError
      else for_each dag_scheduler_delay_body (dag_scheduler_delay_rows (db w)) (Family dag_scheduler_delay),
      scoped DagSchedulerDelay w)"
  by (simp add: dag_scheduler_delay_part_def get_dag_scheduler_delay_def scope_all then_do_def run_query_def)

lemma task_scheduler_delay_part_eq:
  "task_scheduler_delay_part w =
     (if unavailable (db w) TaskSchedulerDelay then Inl StoreError
      else for_each task_scheduler_delay_body (task_scheduler_delay_rows (db w)) (Family task_scheduler_delay),
      scoped TaskSchedulerDelay w)"
  by (simp add: task_scheduler_delay_part_def get_task_scheduler_delay_def scope_all then_do_def run_query_def)

lemma num_queued_tasks_part_eq:
  "num_queued_tasks_part w =
     (if unavailable (db w) NumQueuedTasks then Inl StoreError
      else Inr (Family (add_metric num_queued_tasks_metric [] (IntVal (int (length (queued_tasks (db w))))))),
      scoped NumQueuedTasks w)"
  by (simp add: num_queued_tasks_part_def get_num_queued_tasks_def scope_count then_do_def run_query_def
      call_add_metric_Family)

lemma task_status_part_db: "db (snd (task_status_part w)) = db w"
  by (simp add: task_status_part_eq)

lemma task_duration_part_db: "db (snd (task_duration_part ds w)) = db w"
  by (simp add: task_duration_part_eq)

lemma task_failure_part_db: "db (snd (task_failure_part w)) = db w"
  by (simp add: task_failure_part_eq)

lemma dag_status_part_db: "db (snd (dag_status_part w)) = db w"
  by (simp add: dag_status_part_eq)

lemma dag_duration_part_db: "db (snd (dag_duration_part w)) = db w"
  by (simp add: dag_duration_part_eq)

lemma dag_scheduler_delay_part_db: "db (snd (dag_scheduler_delay_part w)) = db w"
  by (simp add: dag_scheduler_delay_part_eq)

lemma task_scheduler_delay_part_db: "db (snd (task_scheduler_delay_part w)) = db w"
  by (simp add: task_scheduler_delay_part_eq)

lemma num_queued_tasks_part_db: "db (snd (num_queued_tasks_part w)) = db w"
  by (simp add: num_queued_tasks_part_eq)

lemmas part_db = task_status_part_db task_duration_part_db task_failure_part_db
  dag_status_part_db dag_duration_part_db dag_scheduler_delay_part_db
  task_scheduler_delay_part_db num_queued_tasks_part_db

lemma parts_reads_only: "list_all reads_only (parts ds)"
  by (simp add: parts_def reads_only_def part_db)


lemma task_duration_part_det: "store_determined (task_duration_part ds)"
  by (simp add: store_determined_def task_duration_part_eq)



lemma dag_duration_part_det: "store_determined (dag_duration_part)"
  by (simp add: store_determined_def dag_duration_part_eq)





lemma task_status_part_yields: "yields_family task_status_part 
     (''airflow_task_status'', [''dag_id'', ''task_id'', ''owner'', ''status''])"
  by (simp add: yields_family_def task_status_part_eq task_status_loop schema_def
      duration_samples_def catalog_def t_state_def GaugeMetricFamily_def)

lemma task_duration_part_yields: "yields_family (task_duration_part ds) 
     (''airflow_task_duration'', [''task_id'', ''dag_id'', ''execution_date''])"
  by (auto simp: yields_family_def task_duration_part_eq task_duration_loop schema_def
      duration_samples_def catalog_def task_duration_def GaugeMetricFamily_def
      split: if_splits list.splits)

lemma task_failure_part_yields: "yields_family task_failure_part 
     (''airflow_task_fail_count'', [''dag_id'', ''task_id''])"
  by (simp add: yields_family_def task_failure_part_eq task_failure_loop schema_def
      duration_samples_def catalog_def task_failure_count_def GaugeMetricFamily_def)

lemma dag_status_part_yields: "yields_family dag_status_part 
     (''airflow_dag_status'', [''dag_id'', ''owner'', ''status''])"
  by (simp add: yields_family_def dag_status_part_eq dag_status_loop schema_def
      duration_samples_def catalog_def d_state_def GaugeMetricFamily_def)

lemma dag_duration_part_yields: "yields_family dag_duration_part 
     (''airflow_dag_run_duration'', [''dag_id''])"
  by (auto simp: yields_family_def dag_duration_part_eq dag_duration_loop schema_def
      duration_samples_def catalog_def dag_duration_def GaugeMetricFamily_def
      split: if_splits list.splits)

lemma dag_scheduler_delay_part_yields: "yields_family dag_scheduler_delay_part 
     (''airflow_dag_scheduler_delay'', [''dag_id''])"
proof -
  have "schema ob = Some 
     (''airflow_dag_scheduler_delay'', [''dag_id'']) \<and> duration_samples ob = []"
    if "for_each dag_scheduler_delay_body rows (Family dag_scheduler_delay) = Inr ob" for rows ob
  proof -
    have "\<exists>fam'. ob = Family fam' \<and> name fam' = name dag_scheduler_delay
            \<and> labelnames fam' = labelnames dag_scheduler_delay"
      by (rule for_each_family[OF _ that]) (rule dag_scheduler_delay_body_family)
    then obtain fam' where "ob = Family fam'" "name fam' = name dag_scheduler_delay"
      "labelnames fam' = labelnames dag_scheduler_delay" by blast
    then show ?thesis
      by (simp add: schema_def duration_samples_def catalog_def dag_scheduler_delay_def
          GaugeMetricFamily_def)
  qed
  then show ?thesis
    by (simp add: yields_family_def dag_scheduler_delay_part_eq)
qed

lemma task_scheduler_delay_part_yields: "yields_family task_scheduler_delay_part 
     (''airflow_task_scheduler_delay'', [''queue''])"
proof -
  have "schema ob = Some 
     (''airflow_task_scheduler_delay'', [''queue'']) \<and> duration_samples ob = []"
    if "for_each task_scheduler_delay_body rows (Family task_scheduler_delay) = Inr ob" for rows ob
  proof -
    have "\<exists>fam'. ob = Family fam' \<and> name fam' = name task_scheduler_delay
            \<and> labelnames fam' = labelnames task_scheduler_delay"
      by (rule for_each_family[OF _ that]) (rule task_scheduler_delay_body_family)
    then obtain fam' where "ob = Family fam'" "name fam' = name task_scheduler_delay"
      "labelnames fam' = labelnames task_scheduler_delay" by blast
    then show ?thesis
      by (simp add: schema_def duration_samples_def catalog_def task_scheduler_delay_def
          GaugeMetricFamily_def)
  qed
  then show ?thesis
    by (simp add: yields_family_def task_scheduler_delay_part_eq)
qed

lemma num_queued_tasks_part_yields: "yields_family num_queued_tasks_part 
     (''airflow_num_queued_tasks'', [])"
  by (simp add: yields_family_def num_queued_tasks_part_eq schema_def add_metric_def
      duration_samples_def catalog_def num_queued_tasks_metric_def GaugeMetricFamily_def)

lemma parts_yield_catalog: "list_all2 yields_family (parts ds) catalog"
  by (simp add: parts_def catalog_def task_status_part_yields task_duration_part_yields task_failure_part_yields
          dag_status_part_yields dag_duration_part_yields dag_scheduler_delay_part_yields
          task_scheduler_delay_part_yields num_queued_tasks_part_yields)

lemma parts_split_task: "parts ds = [task_status_part] @ task_duration_part ds #
    [task_failure_part, dag_status_part, dag_duration_part, dag_scheduler_delay_part,
     task_scheduler_delay_part, num_queued_tasks_part]"
  by (simp add: parts_def)

lemma parts_split_dag: "parts ds =
    [task_status_part, task_duration_part ds, task_failure_part, dag_status_part]
    @ dag_duration_part #
    [dag_scheduler_delay_part, task_scheduler_delay_part, num_queued_tasks_part]"
  by (simp add: parts_def)

lemma task_duration_part_raises:
  assumes "task_duration_rows (db w) \<noteq> []"
  shows "\<exists>e. fst (task_duration_part ds w) = Inl e"
  using assms by (cases "task_duration_rows (db w)") (auto simp: task_duration_part_eq task_duration_body_eq)

lemma dag_duration_part_raises:
  assumes "dag_duration_rows (db w) \<noteq> []"
  shows "\<exists>e. fst (dag_duration_part w) = Inl e"
  using assms by (cases "dag_duration_rows (db w)") (auto simp: dag_duration_part_eq dag_duration_body_eq)

lemma task_duration_part_raises_healthy:
  assumes "task_duration_rows (db w) \<noteq> []" and "\<not> unavailable (db w) TaskDurationInfo"
  shows "\<exists>e. (e = AttributeError \<or> e = TypeError) \<and> fst (task_duration_part ds w) = Inl e"
  using assms by (cases "task_duration_rows (db w)") (auto simp: task_duration_part_eq task_duration_body_eq)

lemma dag_duration_part_raises_healthy:
  assumes "dag_duration_rows (db w) \<noteq> []" and "\<not> unavailable (db w) DagDurationInfo"
  shows "\<exists>e. (e = AttributeError \<or> e = TypeError) \<and> fst (dag_duration_part w) = Inl e"
  using assms by (cases "dag_duration_rows (db w)") (auto simp: dag_duration_part_eq dag_duration_body_eq)

subsection \<open>Running the parts in order\<close>

lemma run_parts_Cons:
  "run_parts (p # ps) w =
     (case fst (p w) of
        Inl e \<Rightarrow> (\<lparr>yielded = [], raised = Some e\<rparr>, snd (p w))
      | Inr ob \<Rightarrow>
          ((fst (run_parts ps (snd (p w))))
             \<lparr>yielded := ob # yielded (fst (run_parts ps (snd (p w))))\<rparr>,
           snd (run_parts ps (snd (p w)))))"
  by (cases "p w") (simp split: sum.splits prod.splits)

lemma run_parts_db:
  assumes "list_all reads_only ps"
  shows "db (snd (run_parts ps w)) = db w"
  using assms
proof (induction ps arbitrary: w)
  case Nil
  then show ?case by simp
next
  case (Cons p ps)
  have p: "db (snd (p w)) = db w" using Cons.prems by (simp add: reads_only_def)
  have "list_all reads_only ps" using Cons.prems by simp
  then have ih: "db (snd (run_parts ps (snd (p w)))) = db (snd (p w))"
    by (rule Cons.IH)
  show ?case
  proof (cases "fst (p w)")
    case (Inl e)
    then show ?thesis by (simp only: run_parts_Cons sum.case snd_conv p)
  next
    case (Inr ob)
    then show ?thesis by (simp only: run_parts_Cons sum.case snd_conv p ih)
  qed
qed


lemma run_parts_catalog:
  assumes "list_all2 yields_family ps cs"
  shows "map schema (yielded (fst (run_parts ps w)))
           = map Some (take (length (yielded (fst (run_parts ps w)))) cs)
         \<and> concat (map duration_samples (yielded (fst (run_parts ps w)))) = []
         \<and> length (yielded (fst (run_parts ps w))) \<le> length ps
         \<and> (raised (fst (run_parts ps w)) = None
              \<longrightarrow> length (yielded (fst (run_parts ps w))) = length ps)"
  using assms
proof (induction ps cs arbitrary: w rule: list_all2_induct)
  case Nil
  then show ?case by simp
next
  case (Cons p ps c cs)
  show ?case
  proof (cases "fst (p w)")
    case (Inl e)
    then show ?thesis by (simp only: run_parts_Cons sum.case fst_conv) simp
  next
    case (Inr ob)
    with Cons.hyps(1) have ob: "schema ob = Some c" "duration_samples ob = []"
      unfolding yields_family_def by blast+
    from Cons.IH[of "snd (p w)"] ob Inr show ?thesis
      by (simp only: run_parts_Cons sum.case fst_conv) simp
  qed
qed

lemma run_parts_abort_le:
  assumes "list_all reads_only pre"
    and "\<And>w'. db w' = db w \<Longrightarrow> \<exists>e. fst (p w') = Inl e"
  shows "raised (fst (run_parts (pre @ p # post) w)) \<noteq> None
         \<and> length (yielded (fst (run_parts (pre @ p # post) w))) \<le> length pre"
  using assms
proof (induction pre arbitrary: w)
  case Nil
  from Nil.prems(2)[of w] obtain e where "fst (p w) = Inl e" by blast
  then show ?case by (simp only: append_Nil run_parts_Cons sum.case fst_conv) simp
next
  case (Cons q pre)
  from Cons.prems(1) have q: "db (snd (q w)) = db w" by (simp add: reads_only_def)
  from Cons.prems(1) have pre: "list_all reads_only pre" by simp
  have ih: "raised (fst (run_parts (pre @ p # post) (snd (q w)))) \<noteq> None
         \<and> length (yielded (fst (run_parts (pre @ p # post) (snd (q w))))) \<le> length pre"
    using pre
  proof (rule Cons.IH)
    fix w' :: world assume "db w' = db (snd (q w))"
    with q have "db w' = db w" by simp
    then show "\<exists>e. fst (p w') = Inl e" by (rule Cons.prems(2))
  qed
  show ?case
  proof (cases "fst (q w)")
    case (Inl e)
    then show ?thesis by (simp only: append_Cons run_parts_Cons sum.case fst_conv) simp
  next
    case (Inr ob)
    with ih show ?thesis by (simp only: append_Cons run_parts_Cons sum.case fst_conv) simp
  qed
qed

lemma run_parts_abort_eq:
  assumes "list_all reads_only pre"
    and "list_all (\<lambda>q. \<forall>w'::world. db w' = db w \<longrightarrow> (\<exists>ob. fst (q w') = Inr ob)) pre"
    and "\<And>w'. db w' = db w \<Longrightarrow> fst (p w') = Inl e"
  shows "raised (fst (run_parts (pre @ p # post) w)) = Some e
         \<and> length (yielded (fst (run_parts (pre @ p # post) w))) = length pre"
  using assms
proof (induction pre arbitrary: w)
  case Nil
  from Nil.prems(3)[of w] have "fst (p w) = Inl e" by blast
  then show ?case by (simp only: append_Nil run_parts_Cons sum.case fst_conv) simp
next
  case (Cons q pre)
  from Cons.prems(1) have q: "db (snd (q w)) = db w" by (simp add: reads_only_def)
  from Cons.prems(1) have pre: "list_all reads_only pre" by simp
  from Cons.prems(2) obtain ob where ob: "fst (q w) = Inr ob" by auto
  have ih: "raised (fst (run_parts (pre @ p # post) (snd (q w)))) = Some e
         \<and> length (yielded (fst (run_parts (pre @ p # post) (snd (q w))))) = length pre"
    using pre
  proof (rule Cons.IH)
    from Cons.prems(2) q
    show "list_all (\<lambda>q'. \<forall>w'::world. db w' = db (snd (q w)) \<longrightarrow> (\<exists>ob. fst (q' w') = Inr ob)) pre"
      by simp
  next
    fix w' :: world assume "db w' = db (snd (q w))"
    with q have "db w' = db w" by simp
    then show "fst (p w') = Inl e" by (rule Cons.prems(3))
  qed
  from ob ih show ?case by (simp only: append_Cons run_parts_Cons sum.case fst_conv) simp
qed

lemma run_parts_last:
  assumes "list_all reads_only pre"
    and "\<And>w' ob'. db w' = db w \<Longrightarrow> fst (p w') = Inr ob' \<Longrightarrow> ob' = ob"
    and "raised (fst (run_parts (pre @ [p]) w)) = None"
  shows "last (yielded (fst (run_parts (pre @ [p]) w))) = ob
         \<and> yielded (fst (run_parts (pre @ [p]) w)) \<noteq> []"
  using assms
proof (induction pre arbitrary: w)
  case Nil
  show ?case
  proof (cases "fst (p w)")
    case (Inl e)
    with Nil.prems(3) show ?thesis
      by (simp only: append_Nil run_parts_Cons sum.case fst_conv) simp
  next
    case (Inr ob')
    with Nil.prems(2)[of w ob'] have "ob' = ob" by simp
    with Inr show ?thesis
      by (simp only: append_Nil run_parts_Cons sum.case fst_conv) simp
  qed
next
  case (Cons q pre)
  from Cons.prems(1) have q: "db (snd (q w)) = db w" by (simp add: reads_only_def)
  from Cons.prems(1) have pre: "list_all reads_only pre" by simp
  show ?case
  proof (cases "fst (q w)")
    case (Inl e)
    with Cons.prems(3) show ?thesis
      by (simp only: append_Cons run_parts_Cons sum.case fst_conv) simp
  next
    case (Inr ob')
    with Cons.prems(3) have r: "raised (fst (run_parts (pre @ [p]) (snd (q w)))) = None"
      by (simp only: append_Cons run_parts_Cons sum.case fst_conv) simp
    have "last (yielded (fst (run_parts (pre @ [p]) (snd (q w))))) = ob
         \<and> yielded (fst (run_parts (pre @ [p]) (snd (q w)))) \<noteq> []"
      using pre
    proof (rule Cons.IH)
      fix w' :: world and ob' assume "db w' = db (snd (q w))" and f: "fst (p w') = Inr ob'"
      with q have "db w' = db w" by simp
      from Cons.prems(2)[OF this f] show "ob' = ob" .
    qed (rule r)
    with Inr show ?thesis
      by (simp only: append_Cons run_parts_Cons sum.case fst_conv) simp
  qed
qed

section \<open>The store is only read\<close>

text \<open>
  C9: no operation writes to the store. Every part of \<^verbatim>\<open>collect\<close>, and so the whole
  collection, leaves the world with the store it found: only the trace grows.
\<close>

theorem collect_leaves_store: "db (snd (collect ds w)) = db w"
  unfolding collect_def by (rule run_parts_db) (rule parts_reads_only)

section \<open>The order of the rows\<close>











lemma case_list_nonempty:
  "(case xs of [] \<Rightarrow> [] | y # ys \<Rightarrow> [F (y # ys)]) = (if xs = [] then [] else [F xs])"
  by (cases xs) simp_all
















text \<open>
  \<^verbatim>\<open>ORDER BY execution_date DESC LIMIT 1\<close> picks one run whatever the order of the table,
  provided no two runs of a workflow share their execution date.
\<close>

lemma unique_runs_eq:
  assumes "unique_runs st" and "r \<in> set (dag_run st)" and "r0 \<in> set (dag_run st)"
    and "dr_dag_id r = dr_dag_id r0" and "dr_execution_date r = dr_execution_date r0"
  shows "r = r0"
proof -
  from assms(1) have "inj_on (\<lambda>r. (dr_dag_id r, dr_execution_date r)) (set (dag_run st))"
    unfolding unique_runs_def by (simp add: distinct_map)
  with assms(2-5) show ?thesis by (auto dest: inj_onD)
qed


















section \<open>A collection is a function of the store\<close>











section \<open>The families of a collection\<close>

text \<open>
  C5, as amended: the families that \<^verbatim>\<open>collect\<close> yields are always an initial segment of
  the eight families named \<^verbatim>\<open>airflow_task_status\<close>, \<^verbatim>\<open>airflow_task_duration\<close>,
  \<^verbatim>\<open>airflow_task_fail_count\<close>, \<^verbatim>\<open>airflow_dag_status\<close>, \<^verbatim>\<open>airflow_dag_run_duration\<close>,
  \<^verbatim>\<open>airflow_dag_scheduler_delay\<close>, \<^verbatim>\<open>airflow_task_scheduler_delay\<close> and
  \<^verbatim>\<open>airflow_num_queued_tasks\<close>, with the label names of \<open>catalog\<close> and in that order; a
  call that returns without raising has yielded all eight.
\<close>

theorem collect_yields_catalog:
  "map schema (yielded (fst (collect ds w)))
     = map Some (take (length (yielded (fst (collect ds w)))) catalog)
   \<and> (raised (fst (collect ds w)) = None
        \<longrightarrow> map schema (yielded (fst (collect ds w))) = map Some catalog)"
proof -
  have len: "length (parts ds) = length catalog" by (simp add: parts_def catalog_def)
  from run_parts_catalog[OF parts_yield_catalog, of ds w] len show ?thesis
    unfolding collect_def by auto
qed

text \<open>On \<open>canary_store\<close> no run has succeeded, and the collection runs to its end.\<close>

theorem collect_yields_catalog_witness:
  "raised (fst (collect no_date (world_of canary_store))) = None
   \<and> map schema (yielded (fst (collect no_date (world_of canary_store)))) = map Some catalog"
proof -
  have h: "raised (fst (collect no_date (world_of canary_store))) = None" by code_simp
  from collect_yields_catalog[of no_date "world_of canary_store"] h show ?thesis by blast
qed

text \<open>
  C5 as the specification words it fails: on the empty store the families are not named
  \<^verbatim>\<open>workflow_...\<close>, and on \<open>etl_store\<close> a single family is yielded.
\<close>

theorem spec_catalog_counterexample:
  "map schema (yielded (fst (collect no_date (world_of empty_store)))) \<noteq> map Some spec_catalog
   \<and> length (yielded (fst (collect no_date (world_of etl_store)))) = 1"
  by code_simp

text \<open>
  On the empty store all eight families are yielded, each without a sample but the last,
  which has the one sample 0.
\<close>

lemma empty_store_collect:
  "fst (collect ds (world_of empty_store)) =
     \<lparr>yielded = [Family t_state, Family task_duration, Family task_failure_count, Family d_state,
                 Family dag_duration, Family dag_scheduler_delay, Family task_scheduler_delay,
                 Family (num_queued_tasks_metric\<lparr>samples := [([], IntVal 0)]\<rparr>)],
      raised = None\<rparr>"
  by code_simp

section \<open>The duration loops\<close>

text \<open>No collection ever yields a duration family with a sample in it.\<close>

lemma collect_no_duration_samples:
  "concat (map duration_samples (yielded (fst (collect ds w)))) = []"
  unfolding collect_def using run_parts_catalog[OF parts_yield_catalog] by blast

lemma collect_task_rows_abort:
  assumes "task_duration_rows (db w) \<noteq> []"
  shows "raised (fst (collect ds w)) \<noteq> None \<and> length (yielded (fst (collect ds w))) \<le> 1"
proof -
  have "raised (fst (run_parts ([task_status_part] @ task_duration_part ds #
    [task_failure_part, dag_status_part, dag_duration_part, dag_scheduler_delay_part,
     task_scheduler_delay_part, num_queued_tasks_part]) w)) \<noteq> None
    \<and> length (yielded (fst (run_parts ([task_status_part] @ task_duration_part ds #
    [task_failure_part, dag_status_part, dag_duration_part, dag_scheduler_delay_part,
     task_scheduler_delay_part, num_queued_tasks_part]) w))) \<le> length [task_status_part]"
  proof (rule run_parts_abort_le)
    show "list_all reads_only [task_status_part]"
      by (simp add: reads_only_def task_status_part_db)
  next
    fix w' :: world assume "db w' = db w"
    with assms have "task_duration_rows (db w') \<noteq> []" by simp
    then show "\<exists>e. fst (task_duration_part ds w') = Inl e" by (rule task_duration_part_raises)
  qed
  then show ?thesis
    unfolding collect_def parts_split_task[symmetric] by simp
qed

lemma collect_dag_rows_abort:
  assumes "dag_duration_rows (db w) \<noteq> []"
  shows "raised (fst (collect ds w)) \<noteq> None \<and> length (yielded (fst (collect ds w))) \<le> 4"
proof -
  have "raised (fst (run_parts ([task_status_part, task_duration_part ds, task_failure_part, dag_status_part]
    @ dag_duration_part #
    [dag_scheduler_delay_part, task_scheduler_delay_part, num_queued_tasks_part]) w)) \<noteq> None
    \<and> length (yielded (fst (run_parts ([task_status_part, task_duration_part ds, task_failure_part, dag_status_part]
    @ dag_duration_part #
    [dag_scheduler_delay_part, task_scheduler_delay_part, num_queued_tasks_part]) w)))
      \<le> length [task_status_part, task_duration_part ds, task_failure_part, dag_status_part]"
  proof (rule run_parts_abort_le)
    show "list_all reads_only [task_status_part, task_duration_part ds, task_failure_part, dag_status_part]"
      by (simp add: reads_only_def part_db)
  next
    fix w' :: world assume "db w' = db w"
    with assms have "dag_duration_rows (db w') \<noteq> []" by simp
    then show "\<exists>e. fst (dag_duration_part w') = Inl e" by (rule dag_duration_part_raises)
  qed
  then show ?thesis
    unfolding collect_def parts_split_dag[symmetric] by simp
qed

lemma collect_task_rows_abort_healthy:
  assumes rows: "task_duration_rows (db w) \<noteq> []"
    and ok: "\<forall>q. \<not> unavailable (db w) q"
  shows "(raised (fst (collect ds w)) = Some AttributeError
            \<or> raised (fst (collect ds w)) = Some TypeError)
         \<and> length (yielded (fst (collect ds w))) = 1"
proof -
  from rows ok obtain e where e: "e = AttributeError \<or> e = TypeError"
    and fe: "fst (task_duration_part ds w) = Inl e"
    using task_duration_part_raises_healthy[of w ds] by blast
  have "raised (fst (run_parts ([task_status_part] @ task_duration_part ds #
    [task_failure_part, dag_status_part, dag_duration_part, dag_scheduler_delay_part,
     task_scheduler_delay_part, num_queued_tasks_part]) w)) = Some e
    \<and> length (yielded (fst (run_parts ([task_status_part] @ task_duration_part ds #
    [task_failure_part, dag_status_part, dag_duration_part, dag_scheduler_delay_part,
     task_scheduler_delay_part, num_queued_tasks_part]) w))) = length [task_status_part]"
  proof (rule run_parts_abort_eq)
    show "list_all reads_only [task_status_part]"
      by (simp add: reads_only_def task_status_part_db)
  next
    show "list_all (\<lambda>q. \<forall>w'::world. db w' = db w \<longrightarrow> (\<exists>ob. fst (q w') = Inr ob)) [task_status_part]"
      using ok by (simp add: task_status_part_eq task_status_loop)
  next
    fix w' :: world assume "db w' = db w"
    then have "fst (task_duration_part ds w') = fst (task_duration_part ds w)"
      using task_duration_part_det[of ds] unfolding store_determined_def by blast
    with fe show "fst (task_duration_part ds w') = Inl e" by simp
  qed
  with e show ?thesis
    unfolding collect_def parts_split_task[symmetric] by auto
qed

lemma collect_dag_rows_abort_healthy:
  assumes none: "task_duration_rows (db w) = []"
    and rows: "dag_duration_rows (db w) \<noteq> []"
    and ok: "\<forall>q. \<not> unavailable (db w) q"
  shows "(raised (fst (collect ds w)) = Some AttributeError
            \<or> raised (fst (collect ds w)) = Some TypeError)
         \<and> length (yielded (fst (collect ds w))) = 4"
proof -
  from rows ok obtain e where e: "e = AttributeError \<or> e = TypeError"
    and fe: "fst (dag_duration_part w) = Inl e"
    using dag_duration_part_raises_healthy[of w] by blast
  have "raised (fst (run_parts ([task_status_part, task_duration_part ds, task_failure_part, dag_status_part]
    @ dag_duration_part #
    [dag_scheduler_delay_part, task_scheduler_delay_part, num_queued_tasks_part]) w)) = Some e
    \<and> length (yielded (fst (run_parts ([task_status_part, task_duration_part ds, task_failure_part, dag_status_part]
    @ dag_duration_part #
    [dag_scheduler_delay_part, task_scheduler_delay_part, num_queued_tasks_part]) w)))
      = length [task_status_part, task_duration_part ds, task_failure_part, dag_status_part]"
  proof (rule run_parts_abort_eq)
    show "list_all reads_only [task_status_part, task_duration_part ds, task_failure_part, dag_status_part]"
      by (simp add: reads_only_def part_db)
  next
    show "list_all (\<lambda>q. \<forall>w'::world. db w' = db w \<longrightarrow> (\<exists>ob. fst (q w') = Inr ob))
            [task_status_part, task_duration_part ds, task_failure_part, dag_status_part]"
      using ok none
      by (simp add: task_status_part_eq task_status_loop task_duration_part_eq
          task_failure_part_eq task_failure_loop dag_status_part_eq dag_status_loop)
  next
    fix w' :: world assume "db w' = db w"
    then have "fst (dag_duration_part w') = fst (dag_duration_part w)"
      using dag_duration_part_det unfolding store_determined_def by blast
    with fe show "fst (dag_duration_part w') = Inl e" by simp
  qed
  with e show ?thesis
    unfolding collect_def parts_split_dag[symmetric] by auto
qed

text \<open>With both dates in every returned row the error is the \<^verbatim>\<open>AttributeError\<close>.\<close>

lemma task_duration_part_raises_dated:
  assumes "task_duration_rows (db w) \<noteq> []"
    and "list_all (\<lambda>(d, t, s, e, x). dated s e) (task_duration_rows (db w))"
    and "\<not> unavailable (db w) TaskDurationInfo"
  shows "fst (task_duration_part ds w) = Inl AttributeError"
  using assms
  by (cases "task_duration_rows (db w)")
     (auto simp: task_duration_part_eq task_duration_body_eq dated_def)

lemma dag_duration_part_raises_dated:
  assumes "dag_duration_rows (db w) \<noteq> []"
    and "list_all (\<lambda>(d, s, e). dated s e) (dag_duration_rows (db w))"
    and "\<not> unavailable (db w) DagDurationInfo"
  shows "fst (dag_duration_part w) = Inl AttributeError"
  using assms
  by (cases "dag_duration_rows (db w)")
     (auto simp: dag_duration_part_eq dag_duration_body_eq dated_def)

lemma collect_task_rows_abort_exact:
  assumes fe: "fst (task_duration_part ds w) = Inl e"
    and ok: "\<forall>q. \<not> unavailable (db w) q"
  shows "raised (fst (collect ds w)) = Some e"
proof -
  have "raised (fst (run_parts ([task_status_part] @ task_duration_part ds #
    [task_failure_part, dag_status_part, dag_duration_part, dag_scheduler_delay_part,
     task_scheduler_delay_part, num_queued_tasks_part]) w)) = Some e
    \<and> length (yielded (fst (run_parts ([task_status_part] @ task_duration_part ds #
    [task_failure_part, dag_status_part, dag_duration_part, dag_scheduler_delay_part,
     task_scheduler_delay_part, num_queued_tasks_part]) w))) = length [task_status_part]"
  proof (rule run_parts_abort_eq)
    show "list_all reads_only [task_status_part]"
      by (simp add: reads_only_def task_status_part_db)
  next
    show "list_all (\<lambda>q. \<forall>w'::world. db w' = db w \<longrightarrow> (\<exists>ob. fst (q w') = Inr ob)) [task_status_part]"
      using ok by (simp add: task_status_part_eq task_status_loop)
  next
    fix w' :: world assume "db w' = db w"
    then have "fst (task_duration_part ds w') = fst (task_duration_part ds w)"
      using task_duration_part_det[of ds] unfolding store_determined_def by blast
    with fe show "fst (task_duration_part ds w') = Inl e" by simp
  qed
  then show ?thesis
    unfolding collect_def parts_split_task[symmetric] by simp
qed

lemma collect_dag_rows_abort_exact:
  assumes none: "task_duration_rows (db w) = []"
    and fe: "fst (dag_duration_part w) = Inl e"
    and ok: "\<forall>q. \<not> unavailable (db w) q"
  shows "raised (fst (collect ds w)) = Some e"
proof -
  have "raised (fst (run_parts ([task_status_part, task_duration_part ds, task_failure_part, dag_status_part]
    @ dag_duration_part #
    [dag_scheduler_delay_part, task_scheduler_delay_part, num_queued_tasks_part]) w)) = Some e
    \<and> length (yielded (fst (run_parts ([task_status_part, task_duration_part ds, task_failure_part, dag_status_part]
    @ dag_duration_part #
    [dag_scheduler_delay_part, task_scheduler_delay_part, num_queued_tasks_part]) w)))
      = length [task_status_part, task_duration_part ds, task_failure_part, dag_status_part]"
  proof (rule run_parts_abort_eq)
    show "list_all reads_only [task_status_part, task_duration_part ds, task_failure_part, dag_status_part]"
      by (simp add: reads_only_def part_db)
  next
    show "list_all (\<lambda>q. \<forall>w'::world. db w' = db w \<longrightarrow> (\<exists>ob. fst (q w') = Inr ob))
            [task_status_part, task_duration_part ds, task_failure_part, dag_status_part]"
      using ok none
      by (simp add: task_status_part_eq task_status_loop task_duration_part_eq
          task_failure_part_eq task_failure_loop dag_status_part_eq dag_status_loop)
  next
    fix w' :: world assume "db w' = db w"
    then have "fst (dag_duration_part w') = fst (dag_duration_part w)"
      using dag_duration_part_det unfolding store_determined_def by blast
    with fe show "fst (dag_duration_part w') = Inl e" by simp
  qed
  then show ?thesis
    unfolding collect_def parts_split_dag[symmetric] by simp
qed

lemma collect_dated_rows_attribute_error:
  assumes rows: "task_duration_rows (db w) \<noteq> [] \<or> dag_duration_rows (db w) \<noteq> []"
    and ok: "\<forall>q. \<not> unavailable (db w) q"
    and t: "list_all (\<lambda>(d, t, s, e, x). dated s e) (task_duration_rows (db w))"
    and d: "list_all (\<lambda>(d, s, e). dated s e) (dag_duration_rows (db w))"
  shows "raised (fst (collect ds w)) = Some AttributeError"
proof (cases "task_duration_rows (db w) \<noteq> []")
  case True
  from task_duration_part_raises_dated[OF True t, of ds] ok
  have "fst (task_duration_part ds w) = Inl AttributeError" by simp
  then show ?thesis using ok by (rule collect_task_rows_abort_exact)
next
  case False
  then have n: "task_duration_rows (db w) = []" by simp
  with rows have dr: "dag_duration_rows (db w) \<noteq> []" by simp
  from dag_duration_part_raises_dated[OF dr d] ok
  have "fst (dag_duration_part w) = Inl AttributeError" by simp
  with n show ?thesis using ok by (rule collect_dag_rows_abort_exact)
qed

text \<open>
  C2: whenever the task-duration statement or the DAG-run-duration statement returns a
  row, \<^verbatim>\<open>collect\<close> raises: at most the task-status family has been yielded in the
  first case, at most four families in the second, and no yielded duration family carries
  a sample. When no statement fails in the store, exactly that many families are yielded
  and the error is the \<^verbatim>\<open>AttributeError\<close> of \<^verbatim>\<open>add_metric\<close> looked up on a float, or
  the \<^verbatim>\<open>TypeError\<close> of a subtraction with \<^verbatim>\<open>None\<close>; it is the \<^verbatim>\<open>AttributeError\<close>
  when every returned duration row has both of its dates.
\<close>

theorem duration_rows_abort_collect:
  assumes "task_duration_rows (db w) \<noteq> [] \<or> dag_duration_rows (db w) \<noteq> []"
  shows "raised (fst (collect ds w)) \<noteq> None
       \<and> length (yielded (fst (collect ds w)))
           \<le> (if task_duration_rows (db w) \<noteq> [] then 1 else 4)
       \<and> concat (map duration_samples (yielded (fst (collect ds w)))) = []
       \<and> ((\<forall>q. \<not> unavailable (db w) q) \<longrightarrow>
            length (yielded (fst (collect ds w)))
              = (if task_duration_rows (db w) \<noteq> [] then 1 else 4)
            \<and> (raised (fst (collect ds w)) = Some AttributeError
                 \<or> raised (fst (collect ds w)) = Some TypeError)
            \<and> (list_all (\<lambda>(d, t, s, e, x). dated s e) (task_duration_rows (db w))
                 \<and> list_all (\<lambda>(d, s, e). dated s e) (dag_duration_rows (db w))
               \<longrightarrow> raised (fst (collect ds w)) = Some AttributeError))"
proof (cases "task_duration_rows (db w) \<noteq> []")
  case True
  from collect_task_rows_abort[OF True, of ds] collect_task_rows_abort_healthy[OF True, of ds]
    collect_no_duration_samples[of ds w] True collect_dated_rows_attribute_error[OF assms, of ds]
  show ?thesis by auto
next
  case False
  with assms have d: "dag_duration_rows (db w) \<noteq> []" by simp
  from False have n: "task_duration_rows (db w) = []" by simp
  from collect_dag_rows_abort[OF d, of ds] collect_dag_rows_abort_healthy[OF n d, of ds]
    collect_no_duration_samples[of ds w] n collect_dated_rows_attribute_error[OF assms, of ds]
  show ?thesis by auto
qed

text \<open>
  The store \<open>etl_store\<close> has one successful task with both dates, so the task-duration
  statement returns a row: the scrape stops after the first family with
  \<^verbatim>\<open>AttributeError\<close>.
\<close>

theorem duration_rows_abort_collect_witness:
  "task_duration_rows (db (world_of etl_store)) \<noteq> []
   \<and> (\<forall>q. \<not> unavailable (db (world_of etl_store)) q)
   \<and> list_all (\<lambda>(d, t, s, e, x). dated s e) (task_duration_rows (db (world_of etl_store)))
   \<and> list_all (\<lambda>(d, s, e). dated s e) (dag_duration_rows (db (world_of etl_store)))
   \<and> raised (fst (collect no_date (world_of etl_store))) \<noteq> None
   \<and> length (yielded (fst (collect no_date (world_of etl_store)))) = 1
   \<and> concat (map duration_samples (yielded (fst (collect no_date (world_of etl_store))))) = []
   \<and> (raised (fst (collect no_date (world_of etl_store))) = Some AttributeError
        \<or> raised (fst (collect no_date (world_of etl_store))) = Some TypeError)
   \<and> raised (fst (collect no_date (world_of etl_store))) = Some AttributeError"
proof -
  have h1: "task_duration_rows (db (world_of etl_store)) \<noteq> []" by code_simp
  have h2: "\<forall>q. \<not> unavailable (db (world_of etl_store)) q"
    by (simp add: world_of_def etl_store_def)
  have h3: "list_all (\<lambda>(d, t, s, e, x). dated s e) (task_duration_rows (db (world_of etl_store)))"
    by code_simp
  have h4: "list_all (\<lambda>(d, s, e). dated s e) (dag_duration_rows (db (world_of etl_store)))"
    by code_simp
  from duration_rows_abort_collect[of "world_of etl_store" no_date] h1 h2 h3 h4
  show ?thesis by simp
qed

text \<open>
  C1: a duration sample should carry end minus start in seconds. On \<open>etl_store\<close> the
  task \<^verbatim>\<open>extract\<close> ran from second 2 to second 7, the task-duration statement returns
  that row, and \<^verbatim>\<open>collect\<close> yields the task-status family alone and raises
  \<^verbatim>\<open>AttributeError\<close>: no sample with the value 5 is emitted.
\<close>

theorem etl_task_duration_not_emitted:
  "task_duration_rows etl_store
     = [(''etl_daily'', ''extract'', Some 2000000, Some 7000000, Some 0)]
   \<and> fst (collect no_date (world_of etl_store)) =
      \<lparr>yielded = [Family (t_state\<lparr>samples :=
         [([Some ''etl_daily'', Some ''extract'', Some ''data'', Some ''success''], IntVal 1),
          ([Some ''etl_daily'', Some ''load'', Some ''data'', Some ''queued''], IntVal 1)]\<rparr>)],
       raised = Some AttributeError\<rparr>"
  by code_simp

section \<open>The number of queued tasks\<close>

text \<open>
  A collection that returns has yielded the queued-task family last, with the one
  unlabelled sample that counts the queued task instances of all workflows.
\<close>

lemma queued_sample_when_complete:
  assumes "raised (fst (collect ds w)) = None"
  shows "last (yielded (fst (collect ds w))) =
           Family (num_queued_tasks_metric
                     \<lparr>samples := [([], IntVal (int (length (queued_tasks (db w)))))]\<rparr>)"
proof -
  have split: "parts ds = [task_status_part, task_duration_part ds, task_failure_part,
      dag_status_part, dag_duration_part, dag_scheduler_delay_part, task_scheduler_delay_part]
      @ [num_queued_tasks_part]"
    by (simp add: parts_def)
  have "last (yielded (fst (run_parts ([task_status_part, task_duration_part ds, task_failure_part,
      dag_status_part, dag_duration_part, dag_scheduler_delay_part, task_scheduler_delay_part]
      @ [num_queued_tasks_part]) w))) =
           Family (num_queued_tasks_metric
                     \<lparr>samples := [([], IntVal (int (length (queued_tasks (db w)))))]\<rparr>)
      \<and> yielded (fst (run_parts ([task_status_part, task_duration_part ds, task_failure_part,
      dag_status_part, dag_duration_part, dag_scheduler_delay_part, task_scheduler_delay_part]
      @ [num_queued_tasks_part]) w)) \<noteq> []"
  proof (rule run_parts_last)
    show "list_all reads_only [task_status_part, task_duration_part ds, task_failure_part,
      dag_status_part, dag_duration_part, dag_scheduler_delay_part, task_scheduler_delay_part]"
      by (simp add: reads_only_def part_db)
  next
    fix w' :: world and ob'
    assume "db w' = db w" and "fst (num_queued_tasks_part w') = Inr ob'"
    then show "ob' = Family (num_queued_tasks_metric
                     \<lparr>samples := [([], IntVal (int (length (queued_tasks (db w)))))]\<rparr>)"
      by (simp add: num_queued_tasks_part_eq add_metric_def num_queued_tasks_metric_def
          GaugeMetricFamily_def split: if_splits)
  next
    from assms show "raised (fst (run_parts ([task_status_part, task_duration_part ds,
      task_failure_part, dag_status_part, dag_duration_part, dag_scheduler_delay_part,
      task_scheduler_delay_part] @ [num_queued_tasks_part]) w)) = None"
      unfolding collect_def split .
  qed
  then show ?thesis unfolding collect_def split by simp
qed

text \<open>
  C6: the queued-task family should carry one sample in every store state. On
  \<open>skipped_store\<close> one task instance is queued, the DAG-run-duration statement returns a
  row, and \<^verbatim>\<open>collect\<close> raises after four families: the queued-task family is never
  yielded.
\<close>

theorem skipped_queued_family_not_yielded:
  "length (queued_tasks skipped_store) = 1
   \<and> dag_duration_rows skipped_store = [(''etl_daily'', Some 2000000, Some 9000000)]
   \<and> map schema (yielded (fst (collect no_date (world_of skipped_store)))) = map Some (take 4 catalog)
   \<and> raised (fst (collect no_date (world_of skipped_store))) = Some AttributeError"
  by code_simp

section \<open>Null states\<close>

text \<open>
  Unless the task-status statement fails, the first family holds one sample for each of
  its rows, in their order, with the row's count and with \<^verbatim>\<open>state or 'none'\<close> as the
  status label.
\<close>

lemma task_status_samples:
  assumes "\<not> unavailable (db w) TaskStateInfo"
  shows "yielded (fst (collect ds w)) \<noteq> []
         \<and> hd (yielded (fst (collect ds w))) =
             Family (t_state\<lparr>samples :=
               map (\<lambda>(d, t, s, v, ow). ([Some d, Some t, Some ow, Some (or_none s)], IntVal v))
                   (task_state_rows (db w))\<rparr>)"
proof -
  have "fst (task_status_part w) = Inr (Family (t_state\<lparr>samples :=
               map (\<lambda>(d, t, s, v, ow). ([Some d, Some t, Some ow, Some (or_none s)], IntVal v))
                   (task_state_rows (db w))\<rparr>))"
    using assms
    by (simp add: task_status_part_eq task_status_loop t_state_def GaugeMetricFamily_def)
  then show ?thesis
    unfolding collect_def parts_def by (simp only: run_parts_Cons sum.case fst_conv) simp
qed

text \<open>
  C4: a NULL state should become a sentinel label in both status families. On
  \<open>null_state_store\<close> the run of \<^verbatim>\<open>etl_daily\<close> has no state; the DAG-status family
  carries the label \<open>None\<close> as it is, not \<^verbatim>\<open>'none'\<close>, and the count 0.
\<close>

theorem null_dag_state_label:
  "dag_state_rows null_state_store = [(''etl_daily'', None, 0, ''data'')]
   \<and> yielded (fst (collect no_date (world_of null_state_store))) ! 3 =
      Family (d_state\<lparr>samples := [([Some ''etl_daily'', Some ''data'', None], IntVal 0)]\<rparr>)"
  by code_simp

section \<open>Canary scoping of the scheduler delays\<close>

text \<open>
  The DAG-level statement returns at most the canary run of greatest execution date, and
  the runs of other workflows have no influence on it.
\<close>

lemma dag_scheduler_delay_canary_only:
  assumes "row \<in> set (dag_scheduler_delay_rows st)"
  shows "\<exists>r \<in> set (dag_run st). dr_dag_id r = CANARY_DAG
           \<and> row = (CANARY_DAG, dr_execution_date r, dr_start_date r)
           \<and> (\<forall>r' \<in> set (dag_run st). dr_dag_id r' = CANARY_DAG
                 \<longrightarrow> dr_execution_date r' \<le> dr_execution_date r)"
proof -
  let ?C = "filter (\<lambda>r. dr_dag_id r = CANARY_DAG) (dag_run st)"
  let ?S = "sort_key (\<lambda>r. - dr_execution_date r) ?C"
  from assms obtain r where r: "r \<in> set (take 1 ?S)"
    and row: "row = (dr_dag_id r, dr_execution_date r, dr_start_date r)"
    by (auto simp: dag_scheduler_delay_rows_def)
  from r have ne: "?S \<noteq> []" by auto
  then have hd: "r = hd ?S" using r by (cases ?S) simp_all
  from ne have "hd ?S \<in> set ?S" by (rule hd_in_set)
  then have "hd ?S \<in> set ?C" by (simp only: set_sort)
  with hd have rin: "r \<in> set ?C" by (simp only:)
  have sorted: "sorted (map (\<lambda>r. - dr_execution_date r) ?S)" by (rule sorted_sort_key)
  have "dr_execution_date r' \<le> dr_execution_date r" if "r' \<in> set ?C" for r'
  proof -
    from that have "r' \<in> set ?S" by simp
    with sorted ne hd have "- dr_execution_date r \<le> - dr_execution_date r'"
      by (cases ?S) auto
    then show ?thesis by simp
  qed
  with rin row show ?thesis by auto
qed

lemma dag_scheduler_delay_other_runs:
  "dag_scheduler_delay_rows (st\<lparr>dag_run := filter (\<lambda>r. dr_dag_id r = CANARY_DAG) (dag_run st)\<rparr>)
     = dag_scheduler_delay_rows st"
  by (simp add: dag_scheduler_delay_rows_def)

text \<open>
  C3: the task-level scheduler delay should come from the canary workflow alone. On
  \<open>shared_queue_store\<close> a task instance of \<^verbatim>\<open>etl_daily\<close> shares the queue and the start
  date of the canary's latest task instance; the statement returns a row for it, and the
  family carries a second sample, 60 seconds, computed from the other workflow's
  \<^verbatim>\<open>queued_dttm\<close>.
\<close>

theorem shared_queue_delay_from_other_workflow:
  "task_scheduler_delay_rows shared_queue_store =
     [(''default'', 60000000, Some 64000000, Some 65000000),
      (''default'', 0, Some 5000000, Some 65000000)]
   \<and> raised (fst (collect no_date (world_of shared_queue_store))) = None
   \<and> yielded (fst (collect no_date (world_of shared_queue_store))) ! 6 =
      Family (task_scheduler_delay\<lparr>samples :=
        [([Some ''default''], FloatVal 1), ([Some ''default''], FloatVal 60)]\<rparr>)"
  by code_simp

section \<open>The latest successful run\<close>

lemma non_null_map_Some: "non_null (map (\<lambda>r. Some (f r)) xs) = map f xs"
  by (induction xs) (simp_all add: non_null_def)

lemma func_max_map_Some:
  assumes "xs \<noteq> []"
  shows "func_max (map (\<lambda>r. Some (f r)) xs) = Some (Max (f ` set xs))"
proof (cases xs)
  case Nil
  with assms show ?thesis by simp
next
  case (Cons x ys)
  have "fold max (map f ys) (f x) = Max (set (f x # map f ys))"
    by (rule Max.set_eq_fold[symmetric])
  moreover have "non_null (map (\<lambda>r. Some (f r)) (x # ys)) = f x # map f ys"
    using non_null_map_Some[of f "x # ys"] by simp
  ultimately show ?thesis
    using Cons by (simp add: func_max_def del: list.map)
qed

lemma max_execution_dt_row:
  assumes "(d, mx) \<in> set (max_execution_dt_query st)"
  shows "\<exists>r0 \<in> set (dag_run st). completed r0 \<and> dr_dag_id r0 = d
           \<and> mx = Some (dr_execution_date r0)
           \<and> (\<forall>r' \<in> set (dag_run st). completed r' \<and> dr_dag_id r' = d
                 \<longrightarrow> dr_execution_date r' \<le> dr_execution_date r0)"
proof -
  let ?L = "filter (\<lambda>r. dr_dag_id r = d) (filter completed (dag_run st))"
  from assms have d: "d \<in> dr_dag_id ` set (filter completed (dag_run st))"
    and mx: "mx = func_max (map (\<lambda>r. Some (dr_execution_date r)) ?L)"
    by (auto simp: max_execution_dt_query_def group_keys_def)
  from d have ne: "?L \<noteq> []" by (auto simp: filter_empty_conv)
  from func_max_map_Some[OF ne, of dr_execution_date] mx
  have mx': "mx = Some (Max (dr_execution_date ` set ?L))"
    by (simp only:)
  have fin: "finite (dr_execution_date ` set ?L)" by simp
  from ne have ne': "dr_execution_date ` set ?L \<noteq> {}"
    by (simp only: image_is_empty set_empty) simp
  from Max_in[OF fin ne'] obtain r0 where r0: "r0 \<in> set ?L"
    and m: "dr_execution_date r0 = Max (dr_execution_date ` set ?L)" by auto
  have "dr_execution_date r' \<le> dr_execution_date r0"
    if "r' \<in> set (dag_run st)" "completed r'" "dr_dag_id r' = d" for r'
  proof -
    from that have "dr_execution_date r' \<in> dr_execution_date ` set ?L" by simp
    from Max_ge[OF fin this] m show ?thesis by simp
  qed
  with r0 m mx' show ?thesis by auto
qed

lemma dag_start_dt_row:
  assumes "(d, ex, start) \<in> set (dag_start_dt_query st)"
  shows "(d, ex) \<in> set (max_execution_dt_query st)
         \<and> start = func_min (map ti_start_date
              (filter (\<lambda>t. ti_dag_id t = d \<and> sql_eq (Some (ti_execution_date t)) ex)
                      (task_instance st)))"
proof -
  from assms obtain d' mx' where m: "(d', mx') \<in> set (max_execution_dt_query st)"
    and c: "(d, ex, start) \<in> set
      (case filter (\<lambda>t. ti_dag_id t = d' \<and> sql_eq (Some (ti_execution_date t)) mx')
                   (task_instance st) of
         [] \<Rightarrow> []
       | t # ts \<Rightarrow> [(d', mx', func_min (map ti_start_date (t # ts)))])"
    by (auto simp: dag_start_dt_query_def)
  show ?thesis
  proof (cases "filter (\<lambda>t. ti_dag_id t = d' \<and> sql_eq (Some (ti_execution_date t)) mx')
                   (task_instance st)")
    case Nil
    with c show ?thesis by simp
  next
    case (Cons t ts)
    with c have "d = d'" "ex = mx'" "start = func_min (map ti_start_date (t # ts))"
      by simp_all
    with m Cons show ?thesis by simp
  qed
qed

lemma dag_duration_row:
  assumes "(d, start, en) \<in> set (dag_duration_rows st)"
  shows "\<exists>ex r. (d, ex, start) \<in> set (dag_start_dt_query st) \<and> r \<in> set (dag_run st)
           \<and> dr_dag_id r = d \<and> sql_eq (Some (dr_execution_date r)) ex \<and> en = dr_end_date r"
  using assms by (auto simp: dag_duration_rows_def)

lemma joined_run_is_latest:
  assumes u: "unique_runs st"
    and m: "(d, ex) \<in> set (max_execution_dt_query st)"
    and r: "r \<in> set (dag_run st)" "dr_dag_id r = d" "sql_eq (Some (dr_execution_date r)) ex"
  shows "latest_completed st r \<and> ex = Some (dr_execution_date r)"
proof -
  from max_execution_dt_row[OF m] obtain r0 where r0: "r0 \<in> set (dag_run st)" "completed r0"
    "dr_dag_id r0 = d" "ex = Some (dr_execution_date r0)"
    and mx: "\<forall>r' \<in> set (dag_run st). completed r' \<and> dr_dag_id r' = d
                 \<longrightarrow> dr_execution_date r' \<le> dr_execution_date r0"
    by blast
  from r(3) r0(4) have "dr_execution_date r = dr_execution_date r0"
    by (simp add: sql_eq_def)
  with u r r0 have "r = r0" by (intro unique_runs_eq[of st]) simp_all
  with r0 mx show ?thesis by (auto simp: latest_completed_def)
qed

lemma dag_duration_row_latest:
  assumes u: "unique_runs st" and row: "row \<in> set (dag_duration_rows st)"
  shows "\<exists>r \<in> set (dag_run st). latest_completed st r
           \<and> row = (dr_dag_id r, run_start st r, dr_end_date r)"
proof -
  obtain d start en where row': "row = (d, start, en)" by (cases row) auto
  with row have "(d, start, en) \<in> set (dag_duration_rows st)" by simp
  from dag_duration_row[OF this] obtain ex r where
    s: "(d, ex, start) \<in> set (dag_start_dt_query st)" and r: "r \<in> set (dag_run st)"
    "dr_dag_id r = d" "sql_eq (Some (dr_execution_date r)) ex" and en: "en = dr_end_date r"
    by blast
  from dag_start_dt_row[OF s] have m: "(d, ex) \<in> set (max_execution_dt_query st)"
    and st: "start = func_min (map ti_start_date
              (filter (\<lambda>t. ti_dag_id t = d \<and> sql_eq (Some (ti_execution_date t)) ex)
                      (task_instance st)))"
    by simp_all
  from joined_run_is_latest[OF u m r] have l: "latest_completed st r"
    and ex: "ex = Some (dr_execution_date r)" by simp_all
  from st ex r(2) have "start = run_start st r"
    by (simp add: run_start_def sql_eq_def)
  with l r en row' show ?thesis by auto
qed

lemma max_execution_dt_completed_only:
  "max_execution_dt_query (st\<lparr>dag_run := filter completed (dag_run st)\<rparr>) = max_execution_dt_query st"
  by (simp add: max_execution_dt_query_def)

lemma dag_start_dt_completed_only:
  "dag_start_dt_query (st\<lparr>dag_run := filter completed (dag_run st)\<rparr>) = dag_start_dt_query st"
  by (simp add: dag_start_dt_query_def max_execution_dt_completed_only)

lemma dag_duration_completed_only:
  assumes u: "unique_runs st"
  shows "dag_duration_rows (st\<lparr>dag_run := filter completed (dag_run st)\<rparr>) = dag_duration_rows st"
proof -
  have "filter (\<lambda>r. dr_dag_id r = d \<and> sql_eq (Some (dr_execution_date r)) ex)
               (filter completed (dag_run st))
        = filter (\<lambda>r. dr_dag_id r = d \<and> sql_eq (Some (dr_execution_date r)) ex) (dag_run st)"
    if "(d, ex, start) \<in> set (dag_start_dt_query st)" for d ex start
  proof -
    from dag_start_dt_row[OF that] have m: "(d, ex) \<in> set (max_execution_dt_query st)" by simp
    have "completed r" if "r \<in> set (dag_run st)" "dr_dag_id r = d"
      "sql_eq (Some (dr_execution_date r)) ex" for r
      using joined_run_is_latest[OF u m that] by (simp add: latest_completed_def)
    then show ?thesis
      unfolding filter_filter by (intro filter_cong refl) auto
  qed
  then have "map (\<lambda>(d, ex, start).
                    map (\<lambda>r. (d, start, dr_end_date r))
                        (filter (\<lambda>r. dr_dag_id r = d \<and> sql_eq (Some (dr_execution_date r)) ex)
                                (filter completed (dag_run st))))
                 (dag_start_dt_query st)
           = map (\<lambda>(d, ex, start).
                    map (\<lambda>r. (d, start, dr_end_date r))
                        (filter (\<lambda>r. dr_dag_id r = d \<and> sql_eq (Some (dr_execution_date r)) ex)
                                (dag_run st)))
                 (dag_start_dt_query st)"
    by (intro map_cong refl) auto
  moreover have "dag_run (st\<lparr>dag_run := filter completed (dag_run st)\<rparr>)
      = filter completed (dag_run st)"
    by simp
  ultimately show ?thesis
    unfolding dag_duration_rows_def dag_start_dt_completed_only
    by (simp only:)
qed

text \<open>
  C7: the rows of the DAG-run-duration statement come from the latest successful run of
  their workflow alone. The database keeps \<^verbatim>\<open>(dag_id, execution_date)\<close> unique among
  the runs (\<open>unique_runs\<close>). Then every returned row belongs to a run that succeeded, has
  an end date and has the greatest execution date among such runs of its workflow: the
  row carries that run's end date and the least start date of its task instances. Runs
  that did not succeed or have no end date have no influence: without them the statement
  returns the same rows.
\<close>

theorem dag_duration_latest_successful_run:
  assumes "unique_runs st"
  shows "(\<forall>row \<in> set (dag_duration_rows st).
            \<exists>r \<in> set (dag_run st). latest_completed st r
              \<and> row = (dr_dag_id r, run_start st r, dr_end_date r))
         \<and> dag_duration_rows (st\<lparr>dag_run := filter completed (dag_run st)\<rparr>)
             = dag_duration_rows st"
  using dag_duration_row_latest[OF assms] dag_duration_completed_only[OF assms] by blast

text \<open>
  On \<open>runs_store\<close> the workflow has four runs; the latest successful one with an end date
  is the second, although a failed run and a run without end date are later.
\<close>

theorem dag_duration_latest_successful_run_witness:
  "unique_runs runs_store
   \<and> dag_duration_rows runs_store = [(''etl_daily'', Some 102000000, Some 109000000)]
   \<and> (\<exists>r \<in> set (dag_run runs_store). latest_completed runs_store r
         \<and> (''etl_daily'', Some 102000000, Some 109000000)
             = (dr_dag_id r, run_start runs_store r, dr_end_date r))
   \<and> dag_duration_rows (runs_store\<lparr>dag_run := filter completed (dag_run runs_store)\<rparr>)
       = dag_duration_rows runs_store"
proof -
  have u: "unique_runs runs_store" by code_simp
  have rows: "dag_duration_rows runs_store = [(''etl_daily'', Some 102000000, Some 109000000)]"
    by code_simp
  from dag_duration_latest_successful_run[OF u] u rows show ?thesis by simp
qed

section \<open>Reads and session scopes\<close>

text \<open>
  C10: every query-layer function should run its statement inside its session scope.
  \<^verbatim>\<open>get_task_failure_counts\<close> enters and leaves its scope without executing anything;
  the statement runs afterwards, when \<^verbatim>\<open>collect\<close> iterates over the returned query, so
  the trace of a collection has a read outside every scope.
\<close>

theorem task_failure_read_after_close:
  "trace (snd (get_task_failure_counts (world_of etl_store))) = [Enter, Close]
   \<and> trace (snd (task_failure_part (world_of etl_store))) = [Enter, Close, Execute TaskFailureCounts]
   \<and> \<not> reads_in_scope False (trace (snd (task_failure_part (world_of etl_store))))
   \<and> \<not> reads_in_scope False (trace (snd (collect no_date (world_of empty_store))))"
  by code_simp

text \<open>
  When the task-failure statement fails, it fails outside every scope: the collection
  ends with the session still open.
\<close>

lemma failed_iteration_leaves_session_open:
  "session_open False (trace (snd (collect no_date
      (world_of (empty_store\<lparr>unavailable := (\<lambda>q. q = TaskFailureCounts)\<rparr>)))))"
  by code_simp

end
